theory Spec2Isabelle
  imports Main "HOL-Library.Word" "HOL-Library.List_Lexorder" "HOL-Library.Char_ord"
begin

unbundle bit_operations_syntax

section \<open>Buffers and errors\<close>

text \<open>
  A node Buffer is a list of bytes. The source compares, reverses, searches and
  concatenates buffers with the methods the buffertools module adds to Buffer
  (\<^verbatim>\<open>compare\<close>, \<^verbatim>\<open>reverse\<close>, \<^verbatim>\<open>indexOf\<close>, \<^verbatim>\<open>concat\<close>).
\<close>

type_synonym buffer = "8 word list"

text \<open>
  What a JavaScript \<^verbatim>\<open>throw\<close> carries: the \<^verbatim>\<open>VerificationError\<close> of lib/error with
  its message (the part of the message that does not quote a value), the built-in
  \<^verbatim>\<open>TypeError\<close> (a property read on \<^verbatim>\<open>undefined\<close> or \<^verbatim>\<open>null\<close>), the \<^verbatim>\<open>RangeError\<close> of a
  buffer read past the end, and a plain \<^verbatim>\<open>Error\<close> with its message (also what the block
  store hands to a callback as \<^verbatim>\<open>err\<close>).
\<close>

datatype error = VerificationError string | TypeError | RangeError | Error string

definition NULL_HASH :: buffer where
  "NULL_HASH = replicate 32 0"

section \<open>The Merkle engine\<close>

text \<open>
  An element of the \<^verbatim>\<open>txs\<close> array handed to \<^verbatim>\<open>getMerkleTree\<close>: a Transaction object, whose
  leaf is \<^verbatim>\<open>tx.getHash()\<close>, or a hash buffer, which is its own leaf
  (\<^verbatim>\<open>tx instanceof Transaction ? tx.getHash() : tx\<close>). The Transaction class lives in
  lib/schema/transaction; its \<^verbatim>\<open>getHash\<close> is the parameter \<open>txHash\<close>, and
  \<^verbatim>\<open>Util.twoSha256\<close> is the parameter \<open>H2\<close>.
\<close>

datatype 'tx leaf = Tx 'tx | Hash buffer

fun leafHash :: "('tx \<Rightarrow> buffer) \<Rightarrow> 'tx leaf \<Rightarrow> buffer" where
  "leafHash txHash (Tx t) = txHash t"
| "leafHash txHash (Hash h) = h"

text \<open>
  The inner loop of \<^verbatim>\<open>getMerkleTree\<close>:
  \<^verbatim>\<open>for (var i = 0; i < size; i += 2) { var i2 = Math.min(i + 1, size - 1);
       var a = tree[j + i]; var b = tree[j + i2]; tree.push(Util.twoSha256(a.concat(b))); }\<close>
  A read past the end of \<^verbatim>\<open>tree\<close> is \<^verbatim>\<open>undefined\<close>, and \<^verbatim>\<open>concat\<close> on it throws.
\<close>

function merkle_inner ::
  "(buffer \<Rightarrow> buffer) \<Rightarrow> nat \<Rightarrow> nat \<Rightarrow> nat \<Rightarrow> buffer list \<Rightarrow> error + buffer list" where
  "merkle_inner H2 j sz i tree =
     (if i < sz then
        (let i2 = min (i + 1) (sz - 1) in
         if j + i < length tree \<and> j + i2 < length tree
         then merkle_inner H2 j sz (i + 2) (tree @ [H2 (tree ! (j + i) @ tree ! (j + i2))])
         else Inl TypeError)
      else Inr tree)"
  by pat_completeness auto
termination
  by (relation "measure (\<lambda>(H2, j, sz, i, tree). sz - i)") auto

text \<open>
  The outer loop:
  \<^verbatim>\<open>for (var size = txs.length; size > 1; size = Math.floor((size + 1) / 2)) { ...; j += size; }\<close>
\<close>

function merkle_outer ::
  "(buffer \<Rightarrow> buffer) \<Rightarrow> nat \<Rightarrow> nat \<Rightarrow> buffer list \<Rightarrow> error + buffer list" where
  "merkle_outer H2 j sz tree =
     (if 1 < sz then
        (case merkle_inner H2 j sz 0 tree of
           Inl e \<Rightarrow> Inl e
         | Inr tree' \<Rightarrow> merkle_outer H2 (j + sz) ((sz + 1) div 2) tree')
      else Inr tree)"
  by pat_completeness auto
termination
  by (relation "measure (\<lambda>(H2, j, sz, tree). sz)") auto

text \<open>
  \<^verbatim>\<open>getMerkleTree(txs)\<close>. The argument is \<open>None\<close> when the caller passes nothing
  (\<^verbatim>\<open>undefined\<close>): the first statement reads \<^verbatim>\<open>txs.length\<close>, which throws a TypeError.
\<close>

definition getMerkleTree ::
  "(buffer \<Rightarrow> buffer) \<Rightarrow> ('tx \<Rightarrow> buffer) \<Rightarrow> 'tx leaf list option \<Rightarrow> error + buffer list" where
  "getMerkleTree H2 txHash txs =
     (case txs of
        None \<Rightarrow> Inl TypeError
      | Some ts \<Rightarrow>
          if length ts = 0 then Inr [NULL_HASH]
          else merkle_outer H2 0 (length ts) (map (leafHash txHash) ts))"

text \<open>
  \<^verbatim>\<open>calcMerkleRoot(txs)\<close>: \<^verbatim>\<open>tree[tree.length - 1]\<close>. The tree is never empty
  (lemma \<open>getMerkleTree_nonempty\<close>), so the read is in range.
\<close>

definition calcMerkleRoot ::
  "(buffer \<Rightarrow> buffer) \<Rightarrow> ('tx \<Rightarrow> buffer) \<Rightarrow> 'tx leaf list option \<Rightarrow> error + buffer" where
  "calcMerkleRoot H2 txHash txs =
     (case getMerkleTree H2 txHash txs of
        Inl e \<Rightarrow> Inl e
      | Inr tree \<Rightarrow> Inr (tree ! (length tree - 1)))"

subsection \<open>The tree as the specification describes it\<close>

text \<open>
  One level up: the elements are paired \<open>(2i, 2i+1)\<close>, the parent is the double hash of
  the two children joined, and an element without a right sibling is paired with itself.
\<close>

fun pair_level :: "(buffer \<Rightarrow> buffer) \<Rightarrow> buffer list \<Rightarrow> buffer list" where
  "pair_level H2 (a # b # xs) = H2 (a @ b) # pair_level H2 xs"
| "pair_level H2 [a] = [H2 (a @ a)]"
| "pair_level H2 [] = []"

text \<open>The levels, leaves first, up to the level of size at most one.\<close>

function merkle_levels :: "(buffer \<Rightarrow> buffer) \<Rightarrow> buffer list \<Rightarrow> buffer list list" where
  "merkle_levels H2 L = (if 1 < length L then L # merkle_levels H2 (pair_level H2 L) else [L])"
  by pat_completeness auto
termination
proof (relation "measure (\<lambda>(H2, L). length L)")
  show "wf (measure (\<lambda>(H2 :: buffer \<Rightarrow> buffer, L :: buffer list). length L))"
    by simp
next
  fix H2 :: "buffer \<Rightarrow> buffer" and L :: "buffer list"
  assume big: "1 < length L"
  have "length (pair_level H2 xs) = (length xs + 1) div 2" for xs
    by (induction H2 xs rule: pair_level.induct) auto
  then show "((H2, pair_level H2 L), (H2, L)) \<in> measure (\<lambda>(H2, L). length L)"
    using big by simp
qed

declare merkle_levels.simps [simp del]
declare merkle_inner.simps [simp del]
declare merkle_outer.simps [simp del]

subsection \<open>Merkle branches\<close>

text \<open>
  The bitwise operators of JavaScript work on the 32-bit two's complement value of
  their operands (\<^verbatim>\<open>ToInt32\<close>): the number modulo \<open>2^32\<close>, read as signed.
\<close>

definition toInt32 :: "int \<Rightarrow> int" where
  "toInt32 x = sint (word_of_int x :: 32 word)"

text \<open>\<^verbatim>\<open>x & y\<close> and \<^verbatim>\<open>x >> n\<close> (the shift count is taken modulo 32).\<close>

definition js_and :: "int \<Rightarrow> int \<Rightarrow> int" where
  "js_and x y = sint ((word_of_int x :: 32 word) AND word_of_int y)"

definition js_shr :: "int \<Rightarrow> nat \<Rightarrow> int" where
  "js_shr x n = sint (signed_drop_bit (n mod 32) (word_of_int x :: 32 word))"

text \<open>
  \<^verbatim>\<open>calcMerkleBranch(inputHash, branch, mask)\<close>:
  \<^verbatim>\<open>branch.forEach(function (otherside) {
       workingHash = (mask & 1) ? Util.twoSha256(otherside.concat(workingHash))
                                : Util.twoSha256(workingHash.concat(otherside));
       mask = mask >> 1; });\<close>
  The loop state is the pair of \<^verbatim>\<open>workingHash\<close> and \<^verbatim>\<open>mask\<close> (here \<open>msk\<close>).
\<close>

fun branch_loop :: "(buffer \<Rightarrow> buffer) \<Rightarrow> buffer list \<Rightarrow> buffer \<Rightarrow> int \<Rightarrow> buffer" where
  "branch_loop H2 [] workingHash msk = workingHash"
| "branch_loop H2 (otherside # rest) workingHash msk =
     branch_loop H2 rest
       (if js_and msk 1 \<noteq> 0 then H2 (otherside @ workingHash) else H2 (workingHash @ otherside))
       (js_shr msk 1)"

definition calcMerkleBranch :: "(buffer \<Rightarrow> buffer) \<Rightarrow> buffer \<Rightarrow> buffer list \<Rightarrow> int \<Rightarrow> buffer" where
  "calcMerkleBranch H2 inputHash branch msk = branch_loop H2 branch inputHash msk"

text \<open>
  The fold of the specification: the accumulator starts as the leaf; at each sibling the
  low bit of the remaining mask chooses the side, and the mask loses its low bit.
\<close>

definition branch_step :: "(buffer \<Rightarrow> buffer) \<Rightarrow> buffer \<Rightarrow> buffer \<times> int \<Rightarrow> buffer \<times> int" where
  "branch_step H2 sibling s =
     (case s of (acc, m) \<Rightarrow>
        (if m mod 2 = 0 then H2 (acc @ sibling) else H2 (sibling @ acc), m div 2))"

definition verify_branch :: "(buffer \<Rightarrow> buffer) \<Rightarrow> buffer \<Rightarrow> buffer list \<Rightarrow> int \<Rightarrow> buffer" where
  "verify_branch H2 leaf branch msk = fst (fold (branch_step H2) branch (leaf, msk))"

section \<open>Buffer operations\<close>

text \<open>
  \<^verbatim>\<open>a.compare(b)\<close>: buffers of different lengths are ordered by their lengths; buffers
  of one length are compared byte by byte in order (\<^verbatim>\<open>memcmp\<close>), and the first difference
  decides. The result is negative, zero or positive.
\<close>

fun memcmp :: "buffer \<Rightarrow> buffer \<Rightarrow> int" where
  "memcmp (x # xs) (y # ys) =
     (if x < y then - 1 else if y < x then 1 else memcmp xs ys)"
| "memcmp xs ys = 0"

definition compare_buf :: "buffer \<Rightarrow> buffer \<Rightarrow> int" where
  "compare_buf a b =
     (if length a \<noteq> length b then (if length b < length a then 1 else - 1)
      else memcmp a b)"

text \<open>
  \<^verbatim>\<open>haystack.indexOf(needle, start)\<close>: the first position at or after \<open>start\<close> where the
  needle occurs, or \<open>-1\<close>.
\<close>

function indexOf :: "buffer \<Rightarrow> buffer \<Rightarrow> nat \<Rightarrow> int" where
  "indexOf haystack needle start =
     (if length haystack < start + length needle then - 1
      else if take (length needle) (drop start haystack) = needle then int start
      else indexOf haystack needle (start + 1))"
  by pat_completeness auto
termination
  by (relation "measure (\<lambda>(haystack, needle, start). Suc (length haystack) - start)") auto

declare indexOf.simps [simp del]

text \<open>
  The value of little-endian bytes, the \<open>n\<close> low bytes of a number in little-endian
  order, and the four bytes \<^verbatim>\<open>word32le\<close> writes.
\<close>

fun le_value :: "buffer \<Rightarrow> int" where
  "le_value [] = 0"
| "le_value (b # bs) = uint b + 256 * le_value bs"

fun le_bytes :: "nat \<Rightarrow> nat \<Rightarrow> buffer" where
  "le_bytes 0 v = []"
| "le_bytes (Suc n) v = of_nat (v mod 256) # le_bytes n (v div 256)"

definition word32le :: "nat \<Rightarrow> buffer" where
  "word32le x = le_bytes 4 x"

text \<open>
  \<^verbatim>\<open>buf.readUInt32LE(offset)\<close>: the read checks its bounds and throws when the four bytes
  are not all inside the buffer.
\<close>

definition readUInt32LE :: "buffer \<Rightarrow> int \<Rightarrow> error + int" where
  "readUInt32LE buf offset =
     (if offset < 0 \<or> int (length buf) < offset + 4 then Inl RangeError
      else Inr (le_value (take 4 (drop (nat offset) buf))))"

text \<open>The value of a buffer read as a big-endian number (the most significant byte first).\<close>

definition be_value :: "buffer \<Rightarrow> int" where
  "be_value buf = le_value (rev buf)"

section \<open>JavaScript numbers\<close>

text \<open>
  A JavaScript number is an IEEE 754 double. Sums and products of integers are exact
  while they stay below \<open>2^53\<close>; above, the result is the nearest number with a 53-bit
  significand, ties going to the even significand. On integers this rounding is a
  function on \<open>int\<close>; \<open>bit_length\<close> is the number of binary digits.
\<close>

function bit_length :: "int \<Rightarrow> nat" where
  "bit_length n = (if n \<le> 0 then 0 else Suc (bit_length (n div 2)))"
  by pat_completeness auto
termination
  by (relation "measure nat") auto

declare bit_length.simps [simp del]

text \<open>The rounding of a non-negative integer, and of any integer: it is symmetric in the sign.\<close>

definition round_double :: "int \<Rightarrow> int" where
  "round_double n =
     (if bit_length n \<le> 53 then n
      else
        (let sh = bit_length n - 53;
             q = n div 2 ^ sh;
             r = n mod 2 ^ sh;
             half = 2 ^ (sh - 1)
         in (if half < r \<or> (r = half \<and> odd q) then q + 1 else q) * 2 ^ sh))"

definition round_number :: "int \<Rightarrow> int" where
  "round_number x = sgn x * round_double \<bar>x\<bar>"

text \<open>\<^verbatim>\<open>a * b\<close> and \<^verbatim>\<open>a + b\<close> on integer operands: the exact result, rounded.\<close>

definition js_mul :: "int \<Rightarrow> int \<Rightarrow> int" where
  "js_mul a b = round_number (a * b)"

definition js_add :: "int \<Rightarrow> int \<Rightarrow> int" where
  "js_add a b = round_number (a + b)"

text \<open>
  \<^verbatim>\<open>a % b\<close> on integers is exact and has the sign of the dividend (\<open>b\<close> is not zero
  where the source takes a remainder, see below).
\<close>

definition js_rem :: "int \<Rightarrow> int \<Rightarrow> int" where
  "js_rem a b = sgn a * (\<bar>a\<bar> mod \<bar>b\<bar>)"

text \<open>\<^verbatim>\<open>1 << n\<close>: a 32-bit shift, the count taken modulo 32, the result read as signed.\<close>

definition js_shl1 :: "nat \<Rightarrow> int" where
  "js_shl1 n = toInt32 (2 ^ (n mod 32))"

section \<open>Blocks\<close>

text \<open>
  The part of \<^verbatim>\<open>cfg.network\<close> that the block reads, and the transactions of
  lib/schema/transaction: an input has a script \<^verbatim>\<open>s\<close>, a sequence \<^verbatim>\<open>q\<close> and an outpoint
  \<^verbatim>\<open>o\<close>, an output a value \<^verbatim>\<open>v\<close> and a script \<^verbatim>\<open>s\<close>.
\<close>

record network =
  altChain :: bool
  auxPOWFlag :: int
  auxPOWChain :: int
  fullRetargetStart :: int

record txin =
  s_in :: buffer
  q_in :: nat
  o_in :: buffer

record txout =
  v_out :: buffer
  s_out :: buffer

record transaction =
  ins :: "txin list"
  outs :: "txout list"

text \<open>
  A block as the constructor builds it. \<^verbatim>\<open>hash\<close> is \<open>None\<close> for \<^verbatim>\<open>null\<close>; the other
  buffers are never \<^verbatim>\<open>null\<close> (the constructor puts \<^verbatim>\<open>Util.NULL_HASH\<close> where the data has
  none), but may be empty. The integer fields are the unsigned 32-bit values of the
  header. The parent block of an auxiliary proof of work is a block built with the
  default settings, so it has the fields of \<open>blockHeader\<close> and no \<^verbatim>\<open>aux\<close> of its own;
  \<^verbatim>\<open>aux\<close> is \<open>None\<close> when the constructor did not create it.
\<close>

record blockHeader =
  cfg :: network
  hash :: "buffer option"
  prev_hash :: buffer
  merkle_root :: buffer
  timestamp :: nat
  bits :: nat
  nonce :: nat
  version :: nat
  height :: nat

record auxpow =
  coinbase :: transaction
  coinbase_branch :: "buffer list"
  coinbase_branch_mask :: int
  parent :: blockHeader
  parent_hash :: buffer
  blockchain_branch :: "buffer list"
  blockchain_branch_mask :: int

record block = blockHeader +
  aux :: "auxpow option"

text \<open>
  \<^verbatim>\<open>getHeader\<close>: the 80 bytes of the header. \<^verbatim>\<open>calcHash\<close> is \<^verbatim>\<open>Util.twoSha256\<close> of them;
  \<^verbatim>\<open>Util.twoSha256\<close> lives in lib/util and is the parameter \<open>H2\<close> throughout.
\<close>

definition getHeader :: "'a blockHeader_scheme \<Rightarrow> buffer" where
  "getHeader b =
     word32le (version b) @ prev_hash b @ merkle_root b @
     word32le (timestamp b) @ word32le (bits b) @ word32le (nonce b)"

definition calcHash :: "(buffer \<Rightarrow> buffer) \<Rightarrow> 'a blockHeader_scheme \<Rightarrow> buffer" where
  "calcHash H2 b = H2 (getHeader b)"

text \<open>\<^verbatim>\<open>if (!this.hash || !this.hash.length) return false;\<close>\<close>

definition checkHash :: "(buffer \<Rightarrow> buffer) \<Rightarrow> 'a blockHeader_scheme \<Rightarrow> bool" where
  "checkHash H2 b =
     (case hash b of
        None \<Rightarrow> False
      | Some h \<Rightarrow> if length h = 0 then False else compare_buf (calcHash H2 b) h = 0)"

text \<open>
  \<^verbatim>\<open>getHash\<close> returns the stored hash when there is one and computes (and stores) the
  hash of the header otherwise.
\<close>

definition getHash :: "(buffer \<Rightarrow> buffer) \<Rightarrow> 'a blockHeader_scheme \<Rightarrow> buffer" where
  "getHash H2 b =
     (case hash b of
        None \<Rightarrow> calcHash H2 b
      | Some h \<Rightarrow> if length h = 0 then calcHash H2 b else h)"

definition getAuxChainID :: "'a blockHeader_scheme \<Rightarrow> int" where
  "getAuxChainID b = js_shr (int (version b)) 16"

definition isAuxPOW :: "'a blockHeader_scheme \<Rightarrow> bool" where
  "isAuxPOW b = (altChain (cfg b) \<and> js_and (int (version b)) (auxPOWFlag (cfg b)) \<noteq> 0)"

text \<open>
  \<^verbatim>\<open>checkProofOfWork\<close>. \<open>decodeBuf\<close> is \<^verbatim>\<open>Util.decodeDiffBits(bits)\<close>, the target as a
  buffer. The parent hash that does not match \<^verbatim>\<open>aux.parent_hash\<close> is only logged. The
  hash is reversed in a copy (\<^verbatim>\<open>Util.cloneBuffer\<close>).
\<close>

definition checkProofOfWork ::
  "(buffer \<Rightarrow> buffer) \<Rightarrow> (nat \<Rightarrow> buffer) \<Rightarrow> block \<Rightarrow> error + bool" where
  "checkProofOfWork H2 decodeBuf b =
     (let target = decodeBuf (bits b) in
      if isAuxPOW b then
        (if getAuxChainID b \<noteq> auxPOWChain (cfg b)
         then Inl (VerificationError ''Auxiliary Chain ID is not our chain'')
         else
           (case aux b of
              None \<Rightarrow> Inl TypeError
            | Some a \<Rightarrow>
                if 0 < compare_buf (rev (getHash H2 (parent a))) target
                then Inl (VerificationError ''Difficulty target not met'')
                else Inr True))
      else
        (if 0 < compare_buf (rev (getHash H2 b)) target
         then Inl (VerificationError ''Difficulty target not met'')
         else Inr True))"

text \<open>
  \<^verbatim>\<open>getWork\<close>: \<^verbatim>\<open>BlockRules.largestHash.div(target.add(1))\<close> with
  \<^verbatim>\<open>largestHash = bignum(2).pow(256)\<close>. \<open>decodeBig\<close> is \<^verbatim>\<open>Util.decodeDiffBits(bits, true)\<close>,
  the target as a big integer (the specification: a 256-bit unsigned integer).
\<close>

definition largestHash :: nat where
  "largestHash = 2 ^ 256"

definition getWork :: "(nat \<Rightarrow> nat) \<Rightarrow> 'a blockHeader_scheme \<Rightarrow> nat" where
  "getWork decodeBig b = largestHash div (decodeBig (bits b) + 1)"

text \<open>
  \<^verbatim>\<open>checkTimestamp\<close>: \<^verbatim>\<open>new Date().getTime() / 1000\<close> is the clock in seconds, a fraction;
  \<open>nowMs\<close> is the clock in milliseconds, and both sides are multiplied by 1000.
\<close>

definition maxTimeOffset :: nat where
  "maxTimeOffset = 2 * 60 * 60"

definition checkTimestamp :: "nat \<Rightarrow> 'a blockHeader_scheme \<Rightarrow> error + bool" where
  "checkTimestamp nowMs b =
     (if nowMs + maxTimeOffset * 1000 < timestamp b * 1000
      then Inl (VerificationError ''Timestamp too far into the future'')
      else Inr True)"

text \<open>
  \<^verbatim>\<open>checkTransactions\<close>. An element that is not a Transaction has no \<^verbatim>\<open>isCoinBase\<close>
  method, and the call throws. \<open>isCoinBase\<close> is the method of lib/schema/transaction.
\<close>

fun noOtherCoinbase :: "(transaction \<Rightarrow> bool) \<Rightarrow> transaction leaf list \<Rightarrow> error + bool" where
  "noOtherCoinbase isCoinBase [] = Inr True"
| "noOtherCoinbase isCoinBase (Tx t # rest) =
     (if isCoinBase t then Inl (VerificationError ''Tx index must not be coinbase'')
      else noOtherCoinbase isCoinBase rest)"
| "noOtherCoinbase isCoinBase (Hash h # rest) = Inl TypeError"

fun checkTransactions :: "(transaction \<Rightarrow> bool) \<Rightarrow> transaction leaf list \<Rightarrow> error + bool" where
  "checkTransactions isCoinBase [] = Inl (VerificationError ''No transactions'')"
| "checkTransactions isCoinBase (Hash h # rest) = Inl TypeError"
| "checkTransactions isCoinBase (Tx t # rest) =
     (if \<not> isCoinBase t then Inl (VerificationError ''First tx must be coinbase'')
      else noOtherCoinbase isCoinBase rest)"

text \<open>
  \<^verbatim>\<open>checkMerkleRoot(txs)\<close>. The body calls \<^verbatim>\<open>this.calcMerkleRoot()\<close> with no argument, and
  throws when the comparison is \<^verbatim>\<open>== 0\<close>:
  \<^verbatim>\<open>if (this.calcMerkleRoot().compare(this.merkle_root) == 0) {
       throw new VerificationError('Merkle root incorrect'); }\<close>
\<close>

definition checkMerkleRoot ::
  "(buffer \<Rightarrow> buffer) \<Rightarrow> (transaction \<Rightarrow> buffer) \<Rightarrow> 'a blockHeader_scheme \<Rightarrow>
   transaction leaf list option \<Rightarrow> error + bool" where
  "checkMerkleRoot H2 txHash b txs =
     (if length (merkle_root b) = 0 then Inl (VerificationError ''No merkle root'')
      else
        (case calcMerkleRoot H2 txHash None of
           Inl e \<Rightarrow> Inl e
         | Inr root \<Rightarrow>
             if compare_buf root (merkle_root b) = 0
             then Inl (VerificationError ''Merkle root incorrect'')
             else Inr True))"

definition checkMerkleLink ::
  "(buffer \<Rightarrow> buffer) \<Rightarrow> (transaction \<Rightarrow> buffer) \<Rightarrow> block \<Rightarrow> error + unit" where
  "checkMerkleLink H2 txHash b =
     (case aux b of
        None \<Rightarrow> Inl TypeError
      | Some a \<Rightarrow>
          (let txnHash = txHash (coinbase a);
               linkCheck = calcMerkleBranch H2 txnHash (coinbase_branch a) (coinbase_branch_mask a)
           in if compare_buf linkCheck (merkle_root (parent a)) \<noteq> 0
              then Inl (VerificationError ''AuxPOW Merkle Link verification failed'')
              else Inr ()))"

text \<open>
  The end of \<^verbatim>\<open>checkAuxCoinbase\<close>, from \<^verbatim>\<open>var script_data = {};\<close> on: the script, the
  position \<^verbatim>\<open>hash_index\<close> where the hash was found, the length of
  \<^verbatim>\<open>aux.blockchain_branch\<close>, \<^verbatim>\<open>aux.blockchain_branch_mask\<close> and
  \<^verbatim>\<open>cfg.network.auxPOWChain\<close>. \<^verbatim>\<open>rand\<close> is a JavaScript number:
  \<^verbatim>\<open>rand = rand * 1103515245 + 12345; rand += this.cfg.network.auxPOWChain;
   rand = rand * 1103515245 + 12345;\<close>
  The size read from the script is not zero where the remainder is taken: it has just
  been found equal to \<^verbatim>\<open>1 << length\<close>, which is never zero.
\<close>

definition auxRand :: "int \<Rightarrow> int \<Rightarrow> int" where
  "auxRand nonce0 chain =
     (let rand = nonce0;
          rand = js_add (js_mul rand 1103515245) 12345;
          rand = js_add rand chain;
          rand = js_add (js_mul rand 1103515245) 12345
      in rand)"

definition checkAuxScriptData :: "buffer \<Rightarrow> int \<Rightarrow> nat \<Rightarrow> int \<Rightarrow> int \<Rightarrow> error + unit" where
  "checkAuxScriptData script hash_index branch_length branch_mask chain =
     (case readUInt32LE script (hash_index + 32) of
        Inl e \<Rightarrow> Inl e
      | Inr size0 \<Rightarrow>
          (case readUInt32LE script (hash_index + 32 + 4) of
             Inl e \<Rightarrow> Inl e
           | Inr nonce0 \<Rightarrow>
               if size0 \<noteq> js_shl1 branch_length
               then Inl (VerificationError ''AuxPOW merkle branch size does not match coinbase'')
               else if branch_mask \<noteq> js_rem (auxRand nonce0 chain) size0
               then Inl (VerificationError ''AuxPOW blockchain bitmask does not match coinbase script'')
               else Inr ()))"

definition mergedMiningHeader :: buffer where
  "mergedMiningHeader = [0xFA, 0xBE, 0x6D, 0x6D]"

text \<open>
  The hash \<^verbatim>\<open>checkAuxCoinbase\<close> looks for in the script: the reversed Merkle branch root
  over \<^verbatim>\<open>this.getHash()\<close> when there is a blockchain branch, the reversed
  \<^verbatim>\<open>this.calcHash()\<close> otherwise.
\<close>

definition auxEmbeddedHash :: "(buffer \<Rightarrow> buffer) \<Rightarrow> block \<Rightarrow> auxpow \<Rightarrow> buffer" where
  "auxEmbeddedHash H2 b a =
     (if 0 < length (blockchain_branch a)
      then rev (calcMerkleBranch H2 (getHash H2 b) (blockchain_branch a) (blockchain_branch_mask a))
      else rev (calcHash H2 b))"

definition checkAuxCoinbase :: "(buffer \<Rightarrow> buffer) \<Rightarrow> block \<Rightarrow> error + unit" where
  "checkAuxCoinbase H2 b =
     (case aux b of
        None \<Rightarrow> Inl TypeError
      | Some a \<Rightarrow>
          (case ins (coinbase a) of
             [] \<Rightarrow> Inl TypeError
           | in0 # _ \<Rightarrow>
               (let script = s_in in0;
                    head_index = indexOf script mergedMiningHeader 0;
                    hash_index = indexOf script (auxEmbeddedHash H2 b a) 0
                in if hash_index < 0
                   then Inl (VerificationError
                     (if 0 < length (blockchain_branch a)
                      then ''AuxPOW blockchain hash not found in coinbase script''
                      else ''AuxPOW block hash not found in coinbase script''))
                   else if 0 \<le> head_index \<and>
                           0 \<le> indexOf script mergedMiningHeader (nat head_index + 1)
                   then Inl (VerificationError ''AuxPOW coinbase script header not found'')
                   else if 0 \<le> head_index \<and>
                           head_index + int (length mergedMiningHeader) \<noteq> hash_index
                   then Inl (VerificationError
                     ''AuxPOW block hash does not follow the merged mining header in coinbase script'')
                   else if head_index < 0 \<and> 20 < hash_index
                   then Inl (VerificationError
                     ''AuxPow block hash must start in the first 20 bytes of the coinbase script'')
                   else checkAuxScriptData script hash_index (length (blockchain_branch a))
                          (blockchain_branch_mask a) (auxPOWChain (cfg b)))))"

text \<open>
  \<^verbatim>\<open>checkBlock(txs)\<close>; \<open>txs\<close> is \<open>None\<close> when the caller passes none. Its last two
  statements, \<^verbatim>\<open>if (txs) { ... }\<close> and \<^verbatim>\<open>if (this.isAuxPOW()) { ... }\<close>, are
  \<open>checkBlockTxs\<close> and \<open>checkBlockAux\<close>.
\<close>

definition checkBlockTxs ::
  "(buffer \<Rightarrow> buffer) \<Rightarrow> (transaction \<Rightarrow> buffer) \<Rightarrow> (transaction \<Rightarrow> bool) \<Rightarrow> block \<Rightarrow>
   transaction leaf list option \<Rightarrow> error + bool" where
  "checkBlockTxs H2 txHash isCoinBase b txs =
     (case txs of
        None \<Rightarrow> Inr True
      | Some ts \<Rightarrow>
          (case checkTransactions isCoinBase ts of
             Inl e \<Rightarrow> Inl e
           | Inr _ \<Rightarrow>
               (case checkMerkleRoot H2 txHash b txs of
                  Inl e \<Rightarrow> Inl e
                | Inr ok \<Rightarrow>
                    if \<not> ok then Inl (VerificationError ''Merkle hash invalid'') else Inr True)))"

definition checkBlockAux ::
  "(buffer \<Rightarrow> buffer) \<Rightarrow> (transaction \<Rightarrow> buffer) \<Rightarrow> block \<Rightarrow> error + unit" where
  "checkBlockAux H2 txHash b =
     (if isAuxPOW b then
        (case checkMerkleLink H2 txHash b of
           Inl e \<Rightarrow> Inl e
         | Inr _ \<Rightarrow> checkAuxCoinbase H2 b)
      else Inr ())"

definition checkBlock ::
  "(buffer \<Rightarrow> buffer) \<Rightarrow> (nat \<Rightarrow> buffer) \<Rightarrow> (transaction \<Rightarrow> buffer) \<Rightarrow> (transaction \<Rightarrow> bool) \<Rightarrow>
   nat \<Rightarrow> block \<Rightarrow> transaction leaf list option \<Rightarrow> error + bool" where
  "checkBlock H2 decodeBuf txHash isCoinBase nowMs b txs =
     (if \<not> checkHash H2 b then Inl (VerificationError ''Block hash invalid'')
      else
        (case checkProofOfWork H2 decodeBuf b of
           Inl e \<Rightarrow> Inl e
         | Inr _ \<Rightarrow>
             (case checkTimestamp nowMs b of
                Inl e \<Rightarrow> Inl e
              | Inr _ \<Rightarrow>
                  (case checkBlockAux H2 txHash b of
                     Inl e \<Rightarrow> Inl e
                   | Inr _ \<Rightarrow> checkBlockTxs H2 txHash isCoinBase b txs))))"

section \<open>The compact difficulty codec\<close>

text \<open>
  Modelled from the spec: \<^verbatim>\<open>Util.decodeDiffBits\<close> and \<^verbatim>\<open>Util.encodeDiffBits\<close> live in
  lib/util, which is not among the sources. The specification (4.1): the high byte of
  \<^verbatim>\<open>bits\<close> is an exponent \<open>e\<close>, the low 24 bits are the mantissa \<open>m\<close>, and the target is
  \<open>m * 256^(e - 3)\<close> as a 256-bit unsigned integer (for \<open>e < 3\<close> its integer part). The
  source asks for the target as a big integer (second argument \<^verbatim>\<open>true\<close>), on which it
  calls \<^verbatim>\<open>add\<close>, \<^verbatim>\<open>mul\<close>, \<^verbatim>\<open>div\<close> and \<^verbatim>\<open>cmp\<close>, or as a buffer, which it compares with a
  32-byte hash: the 32 low bytes of the target, the most significant first.
\<close>

definition decodeDiffBitsBig :: "nat \<Rightarrow> nat" where
  "decodeDiffBitsBig diffBits =
     (let e = (diffBits div 2 ^ 24) mod 256; m = diffBits mod 2 ^ 24
      in if 3 \<le> e then m * 256 ^ (e - 3) else m div 256 ^ (3 - e))"

text \<open>
  Modelled from the spec: \<^verbatim>\<open>Util.decodeDiffBits(bits)\<close> without the second argument, the
  same target as a buffer of 32 bytes.
\<close>

definition decodeDiffBits :: "nat \<Rightarrow> buffer" where
  "decodeDiffBits diffBits = rev (le_bytes 32 (decodeDiffBitsBig diffBits))"

text \<open>The number of bytes of a number.\<close>

fun byte_length :: "nat \<Rightarrow> nat" where
  "byte_length n = (if n = 0 then 0 else Suc (byte_length (n div 256)))"

declare byte_length.simps [simp del]

text \<open>
  Modelled from the spec: \<^verbatim>\<open>Util.encodeDiffBits\<close> (lib/util, not among the sources). The
  specification (4.1): the encoder re-normalises, keeping the mantissa below \<open>0x800000\<close>.
  The size is the number of bytes of the target, the mantissa its three leading bytes, and
  a mantissa with the top bit set is shifted down one byte and the size raised by one.
\<close>

definition encodeDiffBits :: "nat \<Rightarrow> nat" where
  "encodeDiffBits target =
     (let sz = byte_length target;
          m = (if 3 \<le> sz then target div 256 ^ (sz - 3) else target * 256 ^ (3 - sz))
      in if 2 ^ 23 \<le> m then (sz + 1) * 2 ^ 24 + m div 256 else sz * 2 ^ 24 + m)"

section \<open>The block chain\<close>

text \<open>
  Modelled from the spec: the \<^verbatim>\<open>blockChain\<close> object that \<^verbatim>\<open>getNextWork\<close>,
  \<^verbatim>\<open>getMedianTimePast\<close> and \<^verbatim>\<open>prepareNextBlock\<close> receive is lib/blockchain, which is not
  among the sources. The specification (6) gives its contract: the network parameters
  \<^verbatim>\<open>min_diff_bits\<close>, \<^verbatim>\<open>target_timespan\<close>, \<^verbatim>\<open>target_spacing\<close> and \<^verbatim>\<open>is_testnet\<close>, and the
  lookups \<^verbatim>\<open>get_block_by_height(h)\<close> and \<^verbatim>\<open>get_blocks_by_heights([h...])\<close>. A lookup
  answers its callback with an error or with a block, which is \<^verbatim>\<open>null\<close> when the store
  has none at that height; every lookup has answered before the code that depends on it
  runs (specification, 5). The batch is one lookup per height, and the first error fails
  the batch.

  The timespan and the spacing are positive integers of seconds. JavaScript's \<^verbatim>\<open>/\<close> is
  the exact quotient: \<^verbatim>\<open>targetTimespan / targetSpacing\<close> and \<^verbatim>\<open>targetTimespan / 4\<close> are
  \<open>div\<close> here, which is that quotient where the spacing and 4 divide the timespan (as
  in the canonical parameters, \<open>1209600 / 600 = 2016\<close>).
\<close>

record blockChain =
  getMinDiff :: nat
  getTargetTimespan :: nat
  getTargetSpacing :: nat
  isTestnet :: bool
  getBlockByHeight :: "int \<Rightarrow> error + block option"

text \<open>
  Modelled from the spec: \<^verbatim>\<open>get_blocks_by_heights\<close>, one lookup per height, in the order
  of the heights.
\<close>

fun getBlocksByHeights :: "blockChain \<Rightarrow> int list \<Rightarrow> error + block option list" where
  "getBlocksByHeights chain [] = Inr []"
| "getBlocksByHeights chain (h # hs) =
     (case getBlockByHeight chain h of
        Inl err \<Rightarrow> Inl err
      | Inr blk \<Rightarrow>
          (case getBlocksByHeights chain hs of
             Inl err \<Rightarrow> Inl err
           | Inr blks \<Rightarrow> Inr (blk # blks)))"

section \<open>Median time past\<close>

text \<open>
  \<^verbatim>\<open>timestamps.sort()\<close> is called without a comparison function: JavaScript then orders
  the elements by their string conversions, compared code unit by code unit. The
  timestamps are non-negative integers (below \<open>10^21\<close>), whose string conversion is the
  decimal numeral.
\<close>

definition digit_char :: "nat \<Rightarrow> char" where
  "digit_char d =
     (if d = 0 then CHR ''0'' else if d = 1 then CHR ''1'' else if d = 2 then CHR ''2''
      else if d = 3 then CHR ''3'' else if d = 4 then CHR ''4'' else if d = 5 then CHR ''5''
      else if d = 6 then CHR ''6'' else if d = 7 then CHR ''7'' else if d = 8 then CHR ''8''
      else CHR ''9'')"

function toString :: "nat \<Rightarrow> string" where
  "toString n = (if n < 10 then [digit_char n] else toString (n div 10) @ [digit_char (n mod 10)])"
  by pat_completeness auto
termination
  by (relation "measure (\<lambda>n. n)") auto

declare toString.simps [simp del]

definition js_sort :: "nat list \<Rightarrow> nat list" where
  "js_sort xs = sort_key toString xs"

definition medianTimeSpan :: nat where
  "medianTimeSpan = 11"

text \<open>
  \<^verbatim>\<open>blocks.map(function (block) { if (!block) throw new Error(...); return +block.timestamp; })\<close>
\<close>

fun blockTimestamps :: "block option list \<Rightarrow> error + nat list" where
  "blockTimestamps [] = Inr []"
| "blockTimestamps (None # rest) = Inl (Error ''Prior block missing, cannot calculate median time'')"
| "blockTimestamps (Some blk # rest) =
     (case blockTimestamps rest of
        Inl err \<Rightarrow> Inl err
      | Inr ts \<Rightarrow> Inr (timestamp blk # ts))"

text \<open>
  The loop that collects the heights,
  \<^verbatim>\<open>for (var i = 0, m = medianTimeSpan; i < m && (self.height - i) >= 0; i++)
       heights.push(self.height - i);\<close>
  with the number of rounds left, \<open>m - i\<close>, and the height of the round, \<open>self.height - i\<close>.
\<close>

fun medianHeights :: "nat \<Rightarrow> int \<Rightarrow> int list" where
  "medianHeights 0 h = []"
| "medianHeights (Suc k) h = (if 0 \<le> h then h # medianHeights k (h - 1) else [])"

text \<open>
  \<^verbatim>\<open>getMedianTimePast\<close>. There is at least one height and the batch has one entry per
  height, so the index \<^verbatim>\<open>Math.floor(timestamps.length / 2)\<close> is in range.
\<close>

definition getMedianTimePast :: "blockChain \<Rightarrow> 'a blockHeader_scheme \<Rightarrow> error + nat" where
  "getMedianTimePast chain self =
     (let heights = medianHeights medianTimeSpan (int (height self))
      in case getBlocksByHeights chain heights of
           Inl err \<Rightarrow> Inl err
         | Inr blocks \<Rightarrow>
             (case blockTimestamps blocks of
                Inl err \<Rightarrow> Inl err
              | Inr timestamps \<Rightarrow>
                  (let sorted = js_sort timestamps
                   in Inr (sorted ! (length sorted div 2)))))"

section \<open>The next difficulty\<close>

text \<open>
  \<^verbatim>\<open>lookForLastNonMinDiff(block, callback)\<close>, the recursion of the testnet rule. Each path
  calls the callback once, with an error or with the bits found: that call is the result
  here. A \<^verbatim>\<open>null\<close> block makes \<^verbatim>\<open>block.height\<close> throw, and the \<^verbatim>\<open>catch\<close> hands the error to
  the callback. The recursion follows the heights the store reports and need not end.
\<close>

partial_function (option) lookForLastNonMinDiff ::
  "blockChain \<Rightarrow> nat \<Rightarrow> nat \<Rightarrow> block \<Rightarrow> (error + nat) option" where
  "lookForLastNonMinDiff chain interval powLimit blk =
     (if 0 < height blk \<and> height blk mod interval \<noteq> 0 \<and> bits blk = powLimit
      then
        (case getBlockByHeight chain (int (height blk) - 1) of
           Inl err \<Rightarrow> Some (Inl err)
         | Inr None \<Rightarrow> Some (Inl TypeError)
         | Inr (Some lastBlock) \<Rightarrow> lookForLastNonMinDiff chain interval powLimit lastBlock)
      else Some (Inr (bits blk)))"

text \<open>
  The callback of the retarget branch, given the answer of the lookup:
  \<^verbatim>\<open>actualTimespan\<close> is clamped from below and then from above, and the new target is
  \<^verbatim>\<open>oldTarget.mul(actualTimespan).div(targetTimespan)\<close>, big integer operations on
  non-negative operands.
\<close>

definition retarget ::
  "(nat \<Rightarrow> nat) \<Rightarrow> (nat \<Rightarrow> nat) \<Rightarrow> blockChain \<Rightarrow> block \<Rightarrow> error + block option \<Rightarrow> error + nat" where
  "retarget decodeBig encode chain self answer =
     (case answer of
        Inl err \<Rightarrow> Inl err
      | Inr None \<Rightarrow> Inl TypeError
      | Inr (Some lastBlock) \<Rightarrow>
          (let targetTimespan = getTargetTimespan chain;
               powLimitTarget = decodeBig (getMinDiff chain);
               actualTimespan = int (timestamp self) - int (timestamp lastBlock);
               actualTimespan = (if actualTimespan < int (targetTimespan div 4)
                                 then int (targetTimespan div 4) else actualTimespan);
               actualTimespan = (if int (targetTimespan * 4) < actualTimespan
                                 then int (targetTimespan * 4) else actualTimespan);
               oldTarget = decodeBig (bits self);
               newTarget = (int oldTarget * actualTimespan) div int targetTimespan;
               newTarget = (if int powLimitTarget < newTarget then int powLimitTarget else newTarget)
           in Inr (encode (nat newTarget))))"

text \<open>
  \<^verbatim>\<open>getNextWork(blockChain, nextBlock, callback)\<close>. The function returns nothing: its
  results are its calls of \<^verbatim>\<open>callback\<close>, \<^verbatim>\<open>callback(null, bits)\<close> being \<open>Inr bits\<close> and
  \<^verbatim>\<open>callback(err)\<close> being \<open>Inl err\<close>. The callback may change the state of the caller,
  \<open>'s\<close>, which \<^verbatim>\<open>nextBlock\<close> is part of: \<open>nextTimestamp\<close> reads \<^verbatim>\<open>nextBlock.timestamp\<close> in the
  state of the moment. The callback is taken not to throw into \<^verbatim>\<open>getNextWork\<close>, and
  \<^verbatim>\<open>blockChain.getTopBlock()\<close>, whose result is not used, to have no effect. The
  statement for the genesis block has no \<^verbatim>\<open>return\<close>: the function goes on after it. The
  result is \<open>None\<close> when the recursion of the testnet rule does not end.

  The source divides numbers: \<^verbatim>\<open>targetTimespan / targetSpacing\<close> and, in the callback of
  the retarget branch, \<^verbatim>\<open>targetTimespan / 4\<close>. The quotients are written with \<open>div\<close> here,
  which is the number of the source when the spacing and 4 divide the timespan; a chain
  whose interval is not a whole number is outside this model.
\<close>

definition getNextWork ::
  "(nat \<Rightarrow> nat) \<Rightarrow> (nat \<Rightarrow> nat) \<Rightarrow> blockChain \<Rightarrow> block \<Rightarrow> ('s \<Rightarrow> nat) \<Rightarrow>
   (error + nat \<Rightarrow> 's \<Rightarrow> 's) \<Rightarrow> 's \<Rightarrow> 's option" where
  "getNextWork decodeBig encode chain self nextTimestamp callback st =
     (let powLimit = getMinDiff chain;
          targetTimespan = getTargetTimespan chain;
          targetSpacing = getTargetSpacing chain;
          interval = targetTimespan div targetSpacing;
          st = (if height self = 0 then callback (Inr (bits self)) st else st)
      in if (height self + 1) mod interval \<noteq> 0 then
           (if isTestnet chain then
              (if timestamp self + targetSpacing * 2 < nextTimestamp st
               then Some (callback (Inr powLimit) st)
               else if bits self \<noteq> powLimit
               then Some (callback (Inr (bits self)) st)
               else
                 (case lookForLastNonMinDiff chain interval powLimit self of
                    None \<Rightarrow> None
                  | Some r \<Rightarrow> Some (callback r st)))
            else Some (callback (Inr (bits self)) st))
         else
           (let targetHeight = int (height self) - int interval + 1;
                targetHeight =
                  (if 0 < fullRetargetStart (cfg self) \<and> fullRetargetStart (cfg self) \<le> int (height self)
                   then targetHeight - 1 else targetHeight)
            in Some (callback
                 (retarget decodeBig encode chain self (getBlockByHeight chain targetHeight)) st)))"

section \<open>Preparing the next block\<close>

text \<open>
  \<^verbatim>\<open>Block.getBlockValue(height)\<close>: \<^verbatim>\<open>bignum(50).mul(Util.COIN)\<close> divided by
  \<open>2 ^ floor (height / 210000)\<close>; \<^verbatim>\<open>Util.COIN\<close> is \<open>10^8\<close> (specification, 4.7).
\<close>

definition COIN :: nat where
  "COIN = 10 ^ 8"

definition getBlockValue :: "nat \<Rightarrow> nat" where
  "getBlockValue h = (50 * COIN) div 2 ^ (h div 210000)"

text \<open>
  \<^verbatim>\<open>createCoinbaseTx(beneficiary)\<close>. \<open>COINBASE_OP\<close> is the constant of
  lib/schema/transaction, \<open>bigIntToValue\<close> is \<^verbatim>\<open>Util.bigIntToValue\<close> and \<open>pubKeyOut\<close> is
  \<^verbatim>\<open>Script.createPubKeyOut(beneficiary).getBuffer()\<close>.
\<close>

definition createCoinbaseTx ::
  "buffer \<Rightarrow> (nat \<Rightarrow> buffer) \<Rightarrow> ('b \<Rightarrow> buffer) \<Rightarrow> 'a blockHeader_scheme \<Rightarrow> 'b \<Rightarrow> transaction" where
  "createCoinbaseTx COINBASE_OP bigIntToValue pubKeyOut b beneficiary =
     \<lparr>ins = [\<lparr>s_in = [], q_in = 0xffffffff, o_in = COINBASE_OP\<rparr>],
      outs = [\<lparr>v_out = bigIntToValue (getBlockValue (height b)), s_out = pubKeyOut beneficiary\<rparr>]\<rparr>"

text \<open>
  \<^verbatim>\<open>new Block()\<close> with \<^verbatim>\<open>newBlock.cfg = self.cfg\<close>: every field has its default, and the
  constructor, run with the default settings (no alt chain), has made no \<^verbatim>\<open>aux\<close>.
\<close>

definition newBlockOf :: "network \<Rightarrow> block" where
  "newBlockOf c = \<lparr>cfg = c, hash = None, prev_hash = NULL_HASH, merkle_root = NULL_HASH,
     timestamp = 0, bits = 0, nonce = 0, version = 0, height = 0, aux = None\<rparr>"

text \<open>
  The state of \<^verbatim>\<open>prepareNextBlock\<close> while \<^verbatim>\<open>getNextWork\<close> runs: the steps that the Step
  library still holds, the draft block, what the caller's callback has received (an error,
  or the draft block and its transactions), and the errors that nobody caught. Step runs
  its next step at each call of \<^verbatim>\<open>this\<close> and removes it from its list; a step that
  receives an error throws it on, so an error reaches the caller's callback. When no step
  is left, \<^verbatim>\<open>this\<close> throws the error it is given and ignores a value. The caller's
  callback is taken not to throw.
\<close>

record prepState =
  steps_left :: nat
  newBlock :: block
  delivered :: "(error + block \<times> transaction leaf list) list"
  uncaught :: "error list"

text \<open>
  What \<^verbatim>\<open>this\<close> does when \<^verbatim>\<open>getNextWork\<close> calls it: \<^verbatim>\<open>applyNextWorkStep\<close>, \<^verbatim>\<open>miscStep\<close> and
  the caller's callback run in turn. \<open>tm\<close> is the \<^verbatim>\<open>time\<close> chosen in \<^verbatim>\<open>getNextWorkStep\<close>.
\<close>

definition nextWorkCallback ::
  "(buffer \<Rightarrow> buffer) \<Rightarrow> (transaction \<Rightarrow> buffer) \<Rightarrow> buffer \<Rightarrow> (nat \<Rightarrow> buffer) \<Rightarrow>
   ('b \<Rightarrow> buffer) \<Rightarrow> block \<Rightarrow> 'b \<Rightarrow> nat \<Rightarrow> error + nat \<Rightarrow> prepState \<Rightarrow> prepState" where
  "nextWorkCallback H2 txHash COINBASE_OP bigIntToValue pubKeyOut self beneficiary tm r st =
     (if steps_left st = 0 then
        (case r of
           Inl err \<Rightarrow> st\<lparr>uncaught := uncaught st @ [err]\<rparr>
         | Inr _ \<Rightarrow> st)
      else
        (case r of
           Inl err \<Rightarrow> st\<lparr>steps_left := 0, delivered := delivered st @ [Inl err]\<rparr>
         | Inr nextWork \<Rightarrow>
             (let nb = (newBlock st)\<lparr>bits := nextWork\<rparr>;
                  nb = nb\<lparr>version := 1, timestamp := tm, prev_hash := getHash H2 self,
                         height := height self + 1\<rparr>;
                  txs = [Tx (createCoinbaseTx COINBASE_OP bigIntToValue pubKeyOut nb beneficiary)]
              in case calcMerkleRoot H2 txHash (Some txs) of
                   Inl err \<Rightarrow>
                     st\<lparr>steps_left := 0, newBlock := nb, delivered := delivered st @ [Inl err]\<rparr>
                 | Inr root \<Rightarrow>
                     st\<lparr>steps_left := 0, newBlock := nb\<lparr>merkle_root := root\<rparr>,
                        delivered := delivered st @ [Inr (nb\<lparr>merkle_root := root\<rparr>, txs)]\<rparr>)))"

text \<open>
  \<^verbatim>\<open>prepareNextBlock(blockChain, beneficiary, time, callback)\<close>. \<open>time\<close> is \<open>None\<close> when
  the caller passes none; \<^verbatim>\<open>!time\<close> also holds for 0. \<open>nowMs\<close> is \<^verbatim>\<open>new Date().getTime()\<close>.
  An error of \<^verbatim>\<open>getMedianTimePast\<close> is thrown on by every step and reaches the callback.
  \<^verbatim>\<open>getNextWork\<close> is called on the draft block before its timestamp is set.
\<close>

definition prepareNextBlock ::
  "(buffer \<Rightarrow> buffer) \<Rightarrow> (transaction \<Rightarrow> buffer) \<Rightarrow> (nat \<Rightarrow> nat) \<Rightarrow> (nat \<Rightarrow> nat) \<Rightarrow>
   buffer \<Rightarrow> (nat \<Rightarrow> buffer) \<Rightarrow> ('b \<Rightarrow> buffer) \<Rightarrow>
   blockChain \<Rightarrow> block \<Rightarrow> 'b \<Rightarrow> nat option \<Rightarrow> nat \<Rightarrow> prepState option" where
  "prepareNextBlock H2 txHash decodeBig encode COINBASE_OP bigIntToValue pubKeyOut
     chain self beneficiary time nowMs =
     (let st0 = \<lparr>steps_left = 3, newBlock = newBlockOf (cfg self), delivered = [], uncaught = []\<rparr>
      in case getMedianTimePast chain self of
           Inl err \<Rightarrow> Some (st0\<lparr>steps_left := 0, delivered := [Inl err]\<rparr>)
         | Inr medianTimePast \<Rightarrow>
             (let tm = (case time of
                          None \<Rightarrow> max (medianTimePast + 1) (nowMs div 1000)
                        | Some t \<Rightarrow> if t = 0 then max (medianTimePast + 1) (nowMs div 1000) else t)
              in getNextWork decodeBig encode chain self (\<lambda>st. timestamp (newBlock st))
                   (nextWorkCallback H2 txHash COINBASE_OP bigIntToValue pubKeyOut
                      self beneficiary tm) st0))"

text \<open>The bits of the draft blocks that the caller's callback received, and the errors.\<close>

definition deliveredBits :: "prepState \<Rightarrow> (error + nat) list" where
  "deliveredBits st = map (map_sum id (\<lambda>p. bits (fst p))) (delivered st)"


section \<open>Statements of the specification and example inputs\<close>

text \<open>
  The hash that \<^verbatim>\<open>checkProofOfWork\<close> compares with the target: \<^verbatim>\<open>getHash()\<close> of the parent
  block when the auxiliary proof of work is in effect, \<^verbatim>\<open>getHash()\<close> of the block
  otherwise (\<open>None\<close> when \<^verbatim>\<open>aux\<close> is missing).
\<close>

definition powHash :: "(buffer \<Rightarrow> buffer) \<Rightarrow> block \<Rightarrow> buffer option" where
  "powHash H2 b =
     (if isAuxPOW b then map_option (\<lambda>a. getHash H2 (parent a)) (aux b)
      else Some (getHash H2 b))"

text \<open>
  The generator of the blockchain branch mask as the specification states it, every step
  modulo \<open>2^32\<close>.
\<close>

definition auxRand32 :: "int \<Rightarrow> int \<Rightarrow> int" where
  "auxRand32 nonce0 chain =
     (let rand = nonce0;
          rand = (rand * 1103515245 + 12345) mod 2 ^ 32;
          rand = (rand + chain) mod 2 ^ 32;
          rand = (rand * 1103515245 + 12345) mod 2 ^ 32
      in rand)"

text \<open>
  Two blocks with one header and different stored hashes, on a chain without auxiliary
  proof of work, and a block with auxiliary proof of work whose chain id, 2, is not the
  configured one.
\<close>

definition mainCfg :: network where
  "mainCfg = \<lparr>altChain = False, auxPOWFlag = 256, auxPOWChain = 1, fullRetargetStart = 0\<rparr>"

definition powBlock :: "buffer \<Rightarrow> block" where
  "powBlock h = \<lparr>cfg = mainCfg, hash = Some h, prev_hash = NULL_HASH, merkle_root = NULL_HASH,
     timestamp = 1231006505, bits = 0x1d00ffff, nonce = 0, version = 1, height = 0, aux = None\<rparr>"

definition auxCfg :: network where
  "auxCfg = \<lparr>altChain = True, auxPOWFlag = 256, auxPOWChain = 1, fullRetargetStart = 0\<rparr>"

definition auxParent :: blockHeader where
  "auxParent = \<lparr>cfg = mainCfg, hash = Some (replicate 32 0), prev_hash = NULL_HASH,
     merkle_root = NULL_HASH, timestamp = 1231006505, bits = 0x1d00ffff, nonce = 0, version = 1,
     height = 0\<rparr>"

definition auxBlock :: block where
  "auxBlock = \<lparr>cfg = auxCfg, hash = None, prev_hash = NULL_HASH, merkle_root = NULL_HASH,
     timestamp = 1231006505, bits = 0x1d00ffff, nonce = 0, version = 2 * 65536 + 256, height = 1,
     aux = Some \<lparr>coinbase = \<lparr>ins = [], outs = []\<rparr>, coinbase_branch = [],
       coinbase_branch_mask = 0, parent = auxParent, parent_hash = NULL_HASH,
       blockchain_branch = [], blockchain_branch_mask = 0\<rparr>\<rparr>"

text \<open>
  A coinbase script: the merged mining header, a hash of 32 bytes at position 4, the size
  2 and the nonce 1.
\<close>

definition auxScript :: buffer where
  "auxScript = mergedMiningHeader @ replicate 32 0 @ word32le 2 @ word32le 1"

text \<open>
  A branch of 34 siblings, the one-byte buffers 1 to 34, longer than the 32 bits of a
  JavaScript bitwise operand.
\<close>

definition siblings34 :: "buffer list" where
  "siblings34 = [[1], [2], [3], [4], [5], [6], [7], [8], [9], [10], [11], [12], [13], [14], [15],
     [16], [17], [18], [19], [20], [21], [22], [23], [24], [25], [26], [27], [28], [29], [30],
     [31], [32], [33], [34]]"

text \<open>
  Scenario S5: a chain of eleven blocks, at the heights 0 to 10, whose timestamps, from
  the block at height 10 down to the block at height 0, are 7, 2, 5, 1, 9, 3, 8, 4, 6, 10
  and 11, on the canonical main network.
\<close>

definition plainBlock :: "nat \<Rightarrow> nat \<Rightarrow> nat \<Rightarrow> block" where
  "plainBlock h t b = \<lparr>cfg = mainCfg, hash = None, prev_hash = NULL_HASH, merkle_root = NULL_HASH,
     timestamp = t, bits = b, nonce = 0, version = 1, height = h, aux = None\<rparr>"

definition timestampsS5 :: "nat list" where
  "timestampsS5 = [7, 2, 5, 1, 9, 3, 8, 4, 6, 10, 11]"

definition chainS5 :: blockChain where
  "chainS5 = \<lparr>getMinDiff = 0x1d00ffff, getTargetTimespan = 1209600, getTargetSpacing = 600,
     isTestnet = False,
     getBlockByHeight = (\<lambda>h. if 0 \<le> h \<and> h \<le> 10
        then Inr (Some (plainBlock (nat h) (timestampsS5 ! nat (10 - h)) 0x1d00ffff))
        else Inr None)\<rparr>"

text \<open>
  The clamp of the specification: the actual timespan brought into
  \<open>[target_timespan / 4, target_timespan * 4]\<close>.
\<close>

definition clampTimespan :: "nat \<Rightarrow> int \<Rightarrow> nat" where
  "clampTimespan T actual = nat (min (int (T * 4)) (max (int (T div 4)) actual))"

text \<open>
  Scenario S4: the canonical main network, a block at the height 2015 with the bits
  \<open>0x1d00ffff\<close>, and the anchor at the height 0 eight weeks earlier.
\<close>

definition chainS4 :: blockChain where
  "chainS4 = \<lparr>getMinDiff = 0x1d00ffff, getTargetTimespan = 1209600, getTargetSpacing = 600,
     isTestnet = False,
     getBlockByHeight = (\<lambda>h. if h = 0 then Inr (Some (plainBlock 0 1231006505 0x1d00ffff))
        else Inr None)\<rparr>"

definition blockS4 :: block where
  "blockS4 = plainBlock 2015 (1231006505 + 4 * 1209600) 0x1d00ffff"

text \<open>
  A testnet chain of two blocks, one thousand seconds apart, whose bits \<open>0x1c00ffff\<close> are
  harder than the minimum difficulty \<open>0x1d00ffff\<close>.
\<close>

definition testBlock :: "nat \<Rightarrow> block" where
  "testBlock h = plainBlock h (1000 * (h + 1)) 0x1c00ffff"

definition chainTest :: blockChain where
  "chainTest = \<lparr>getMinDiff = 0x1d00ffff, getTargetTimespan = 1209600, getTargetSpacing = 600,
     isTestnet = True,
     getBlockByHeight = (\<lambda>h. if h = 0 \<or> h = 1 then Inr (Some (testBlock (nat h))) else Inr None)\<rparr>"

text \<open>
  What an observer of \<^verbatim>\<open>prepareNextBlock\<close> sees of its state: the number of steps left, the
  bits (or errors) delivered and the uncaught errors; and how a call of the callback with
  \<open>r\<close> changes it.
\<close>

definition obs :: "prepState \<Rightarrow> nat \<times> (error + nat) list \<times> error list" where
  "obs st = (steps_left st, deliveredBits st, uncaught st)"

definition obsStep ::
  "error + nat \<Rightarrow> nat \<times> (error + nat) list \<times> error list \<Rightarrow> nat \<times> (error + nat) list \<times> error list" where
  "obsStep r p =
     (case p of (n, d, u) \<Rightarrow>
        if n = 0 then (0, d, u @ (case r of Inl e \<Rightarrow> [e] | Inr _ \<Rightarrow> []))
        else (0, d @ [r], u))"


section \<open>Properties of the Merkle engine\<close>

lemma length_pair_level: "length (pair_level H2 xs) = (length xs + 1) div 2"
  by (induction H2 xs rule: pair_level.induct) auto

lemma drop_two:
  assumes "drop i xs = a # b # ys"
  shows "i < length xs" "i + 1 < length xs" "xs ! i = a" "xs ! (i + 1) = b" "drop (i + 2) xs = ys"
proof -
  show l: "i < length xs" using assms by (cases "i < length xs") auto
  have d1: "drop (Suc i) xs = b # ys"
    using assms l by (metis Cons_nth_drop_Suc list.inject)
  show l1: "i + 1 < length xs" using d1 by (cases "Suc i < length xs") auto
  show "xs ! i = a" using assms l by (metis Cons_nth_drop_Suc list.inject)
  show "xs ! (i + 1) = b" using d1 l1 by (metis Cons_nth_drop_Suc list.inject Suc_eq_plus1)
  show "drop (i + 2) xs = ys" using d1 l1
    by (metis Cons_nth_drop_Suc list.inject Suc_eq_plus1 add_2_eq_Suc')
qed

lemma drop_one:
  assumes "drop i xs = [a]"
  shows "i < length xs" "i + 1 = length xs" "xs ! i = a"
proof -
  show l: "i < length xs" using assms by (cases "i < length xs") auto
  have "length (drop i xs) = 1" using assms by simp
  then show "i + 1 = length xs" using l by simp
  show "xs ! i = a" using assms l by (metis Cons_nth_drop_Suc list.inject)
qed

text \<open>
  The inner loop, started at an even index \<open>i\<close> of a level that sits in the tree after
  \<open>j\<close> earlier elements, appends the parents of the rest of the level and never reads
  out of range.
\<close>

lemma merkle_inner_level:
  "length pre = j \<Longrightarrow> length lvl = sz \<Longrightarrow>
   merkle_inner H2 j sz i (pre @ lvl @ acc) = Inr (pre @ lvl @ acc @ pair_level H2 (drop i lvl))"
proof (induction H2 "drop i lvl" arbitrary: i acc rule: pair_level.induct)
  case (1 H2 a b xs)
  note d = drop_two [OF "1.hyps"(2) [symmetric]]
  have m: "min (i + 1) (sz - 1) = i + 1"
    using d "1.prems" by auto
  have step: "merkle_inner H2 j sz i (pre @ lvl @ acc) =
      merkle_inner H2 j sz (i + 2) (pre @ lvl @ (acc @ [H2 (a @ b)]))"
    using d "1.prems" by (subst merkle_inner.simps) (simp add: nth_append m del: One_nat_def)
  have "merkle_inner H2 j sz (i + 2) (pre @ lvl @ (acc @ [H2 (a @ b)])) =
      Inr (pre @ lvl @ (acc @ [H2 (a @ b)]) @ pair_level H2 (drop (i + 2) lvl))"
    by (rule "1.hyps"(1)) (use d "1.prems" in simp_all)
  then show ?case using step d "1.hyps"(2) [symmetric] by simp
next
  case (2 H2 a)
  note d = drop_one [OF "2.hyps" [symmetric]]
  have m: "min (i + 1) (sz - 1) = i" and l: "i < sz" "i < length lvl"
    using d "2.prems" by auto
  have "merkle_inner H2 j sz i (pre @ lvl @ acc) =
      merkle_inner H2 j sz (i + 2) (pre @ lvl @ acc @ [H2 (a @ a)])"
    using l d(3) "2.prems" by (subst merkle_inner.simps) (simp add: nth_append m del: One_nat_def)
  also have "\<dots> = Inr (pre @ lvl @ acc @ [H2 (a @ a)])"
    using d "2.prems" by (subst merkle_inner.simps) simp
  finally show ?case using "2.hyps" [symmetric] by simp
next
  case (3 H2)
  then have "sz \<le> i" by simp
  then show ?case using "3.hyps" [symmetric] by (subst merkle_inner.simps) simp
qed

lemma merkle_outer_levels:
  "length pre = j \<Longrightarrow> length lvl = sz \<Longrightarrow>
   merkle_outer H2 j sz (pre @ lvl) = Inr (pre @ concat (merkle_levels H2 lvl))"
proof (induction H2 lvl arbitrary: pre j sz rule: merkle_levels.induct)
  case (1 H2 L)
  show ?case
  proof (cases "1 < length L")
    case True
    have inner: "merkle_inner H2 j sz 0 (pre @ L) = Inr (pre @ L @ pair_level H2 L)"
      using merkle_inner_level [of pre j L sz H2 0 "[]"] "1.prems" by simp
    have "merkle_outer H2 (j + sz) ((sz + 1) div 2) ((pre @ L) @ pair_level H2 L) =
        Inr ((pre @ L) @ concat (merkle_levels H2 (pair_level H2 L)))"
      by (rule "1.IH" [OF True]) (use "1.prems" in \<open>simp_all add: length_pair_level\<close>)
    then show ?thesis
      using True inner "1.prems"
      by (subst merkle_outer.simps, subst merkle_levels.simps) simp
  next
    case False
    then show ?thesis using "1.prems"
      by (subst merkle_outer.simps, subst merkle_levels.simps) simp
  qed
qed

lemma getMerkleTree_eq:
  "getMerkleTree H2 txHash (Some txs) =
     Inr (if txs = [] then [NULL_HASH]
          else concat (merkle_levels H2 (map (leafHash txHash) txs)))"
  using merkle_outer_levels [of "[]" 0 "map (leafHash txHash) txs" "length txs" H2]
  by (simp add: getMerkleTree_def)

lemma merkle_levels_nonempty: "L \<noteq> [] \<Longrightarrow> concat (merkle_levels H2 L) \<noteq> []"
  by (subst merkle_levels.simps) simp

lemma getMerkleTree_nonempty:
  assumes "getMerkleTree H2 txHash (Some txs) = Inr tree"
  shows "tree \<noteq> []"
proof (cases "txs = []")
  case True
  then show ?thesis using assms by (auto simp: getMerkleTree_eq)
next
  case False
  then have "concat (merkle_levels H2 (map (leafHash txHash) txs)) \<noteq> []"
    by (intro merkle_levels_nonempty) simp
  then show ?thesis using assms False by (auto simp: getMerkleTree_eq)
qed

lemma calcMerkleRoot_eq:
  "calcMerkleRoot H2 txHash (Some txs) =
     Inr (if txs = [] then NULL_HASH
          else last (concat (merkle_levels H2 (map (leafHash txHash) txs))))"
proof (cases "txs = []")
  case True
  then show ?thesis by (simp add: calcMerkleRoot_def getMerkleTree_eq)
next
  case False
  then have "concat (merkle_levels H2 (map (leafHash txHash) txs)) \<noteq> []"
    by (intro merkle_levels_nonempty) simp
  then show ?thesis using False
    by (simp add: calcMerkleRoot_def getMerkleTree_eq last_conv_nth)
qed

text \<open>
  C7. For every sequence of leaves, \<^verbatim>\<open>getMerkleTree\<close> returns the levels of the tree
  flattened, leaves first: level 0 is the leaf hashes in order, each further level pairs
  the elements \<open>(2i, 2i+1)\<close> of the level below under \<open>H2 (left @ right)\<close>, an element
  without right sibling being paired with itself, up to the level of one element; no
  leaves give the single zero hash. \<^verbatim>\<open>calcMerkleRoot\<close> returns the last element of the
  flattened tree, so the root of \<open>[a, b, c]\<close> is \<open>H2 (H2 (a @ b) @ H2 (c @ c))\<close> and the
  root of \<open>[h]\<close> is \<open>h\<close>.
\<close>

theorem getMerkleTree_levels:
  "getMerkleTree H2 txHash (Some txs) =
     Inr (if txs = [] then [NULL_HASH]
          else concat (merkle_levels H2 (map (leafHash txHash) txs)))
   \<and> hd (merkle_levels H2 L) = L
   \<and> calcMerkleRoot H2 txHash (Some txs) =
       Inr (if txs = [] then NULL_HASH
            else last (concat (merkle_levels H2 (map (leafHash txHash) txs))))
   \<and> calcMerkleRoot H2 txHash (Some []) = Inr (replicate 32 0)
   \<and> calcMerkleRoot H2 txHash (Some [Hash a, Hash b, Hash c]) = Inr (H2 (H2 (a @ b) @ H2 (c @ c)))
   \<and> calcMerkleRoot H2 txHash (Some [Hash h]) = Inr h"
proof -
  have l0: "hd (merkle_levels H2 L) = L"
    by (subst merkle_levels.simps) simp
  have e: "calcMerkleRoot H2 txHash (Some []) = Inr (replicate 32 0)"
    by (simp add: calcMerkleRoot_eq NULL_HASH_def)
  have one: "merkle_levels H2 [x] = [[x]]" for x
    by (subst merkle_levels.simps) simp
  have two: "merkle_levels H2 [x, y] = [[x, y], [H2 (x @ y)]]" for x y
    by (subst merkle_levels.simps) (simp add: one)
  have three: "merkle_levels H2 [a, b, c] =
      [[a, b, c], [H2 (a @ b), H2 (c @ c)], [H2 (H2 (a @ b) @ H2 (c @ c))]]"
    by (subst merkle_levels.simps) (simp add: two)
  have s3: "calcMerkleRoot H2 txHash (Some [Hash a, Hash b, Hash c]) =
      Inr (H2 (H2 (a @ b) @ H2 (c @ c)))"
    by (simp add: calcMerkleRoot_eq three)
  have s2: "calcMerkleRoot H2 txHash (Some [Hash h]) = Inr h"
    by (simp add: calcMerkleRoot_eq one)
  show ?thesis
    using getMerkleTree_eq [of H2 txHash txs] calcMerkleRoot_eq [of H2 txHash txs] l0 e s3 s2
    by blast
qed

subsection \<open>Merkle branches\<close>

lemma sint32_of_int: "- (2 ^ 31) \<le> x \<Longrightarrow> x < 2 ^ 31 \<Longrightarrow> sint (word_of_int x :: 32 word) = x"
  by (simp add: sint_sbintrunc' signed_take_bit_int_eq_self)

lemma js_and_1: "js_and x 1 = x mod 2"
proof -
  have "(word_of_int x :: 32 word) AND 1 = word_of_int (x AND 1)"
    by (simp add: of_int_and_eq)
  also have "x AND 1 = x mod 2"
    by (rule and_one_eq)
  finally have "js_and x 1 = sint (word_of_int (x mod 2) :: 32 word)"
    by (simp add: js_and_def)
  also have "\<dots> = x mod 2"
    by (rule sint32_of_int) (simp_all add: order_trans [of _ 0] less_trans [of _ 2])
  finally show ?thesis .
qed

lemma js_shr_1: "- (2 ^ 31) \<le> x \<Longrightarrow> x < 2 ^ 31 \<Longrightarrow> js_shr x 1 = x div 2"
  by (simp add: js_shr_def sint_signed_drop_bit_eq sint32_of_int drop_bit_eq_div)

lemma calcMerkleBranch_int32:
  "- (2 ^ 31) \<le> msk \<Longrightarrow> msk < 2 ^ 31 \<Longrightarrow>
   calcMerkleBranch H2 leaf branch msk = verify_branch H2 leaf branch msk"
  unfolding calcMerkleBranch_def verify_branch_def
proof (induction branch arbitrary: leaf msk)
  case Nil
  then show ?case by simp
next
  case (Cons sib branch)
  have r: "- (2 ^ 31) \<le> msk div 2" "msk div 2 < 2 ^ 31"
    using Cons.prems by simp_all
  show ?case
    using Cons.IH [OF r] Cons.prems
    by (simp add: branch_step_def js_and_1 js_shr_1 del: One_nat_def)
qed

text \<open>Only the \<open>n\<close> low bits of the mask matter to a fold over at most \<open>n\<close> siblings.\<close>

lemma verify_fold_cong:
  "m mod 2 ^ n = m' mod 2 ^ n \<Longrightarrow> length branch \<le> n \<Longrightarrow>
   fst (fold (branch_step H2) branch (acc, m)) = fst (fold (branch_step H2) branch (acc, m'))"
proof (induction branch arbitrary: acc m m' n)
  case Nil
  then show ?case by simp
next
  case (Cons sib branch)
  then obtain k where n: "n = Suc k" by (cases n) auto
  have p: "m mod 2 = m' mod 2"
  proof -
    have "(m mod 2 ^ n) mod 2 = (m' mod 2 ^ n) mod 2" using Cons.prems(1) by simp
    then show ?thesis by (simp add: n mod_mod_cancel)
  qed
  have d: "(m div 2) mod 2 ^ k = (m' div 2) mod 2 ^ k"
  proof -
    have h: "(x mod (2 * 2 ^ k)) div 2 = (x div 2) mod 2 ^ k" for x :: int
      by (simp add: zmod_zmult2_eq)
    have "(m mod 2 ^ n) div 2 = (m' mod 2 ^ n) div 2" using Cons.prems(1) by simp
    then show ?thesis
      by (simp add: n h)
  qed
  have l: "length branch \<le> k" using Cons.prems(2) n by simp
  show ?case
    using Cons.IH [OF d l] p by (simp add: branch_step_def)
qed


lemma half_mod: "(x mod (2 * 2 ^ k)) div 2 = (x div 2) mod 2 ^ k" for x :: int
  by (simp add: zmod_zmult2_eq)

lemma half_mod32: "(x mod 2 ^ 32) div 2 = (x div 2) mod 2 ^ 31" for x :: int
  using half_mod [of x 31] by simp

lemma toInt32_mod: "toInt32 x mod 2 ^ 32 = x mod 2 ^ 32"
proof -
  have "sint (word_of_int x :: 32 word) = (x + 2 ^ 31) mod 2 ^ 32 - 2 ^ 31"
    by (simp add: int_word_sint)
  then have "toInt32 x mod 2 ^ 32 = ((x + 2 ^ 31) mod 2 ^ 32 - 2 ^ 31) mod 2 ^ 32"
    by (simp add: toInt32_def)
  also have "\<dots> = (x + 2 ^ 31 - 2 ^ 31) mod 2 ^ 32"
    by (rule mod_diff_left_eq)
  finally show ?thesis by simp
qed

lemma toInt32_range: "- (2 ^ 31) \<le> toInt32 x" "toInt32 x < 2 ^ 31"
  using sint_ge [of "word_of_int x :: 32 word"] sint_lt [of "word_of_int x :: 32 word"]
  by (simp_all add: toInt32_def)

lemma js_shr_toInt32: "js_shr x 1 = toInt32 x div 2"
  by (simp add: js_shr_def toInt32_def sint_signed_drop_bit_eq drop_bit_eq_div)

lemma calcMerkleBranch_short:
  assumes "length branch \<le> 32"
  shows "calcMerkleBranch H2 leaf branch msk = verify_branch H2 leaf branch msk"
proof (cases branch)
  case Nil
  then show ?thesis by (simp add: calcMerkleBranch_def verify_branch_def)
next
  case (Cons sib rest)
  let ?acc = "if msk mod 2 = 0 then H2 (leaf @ sib) else H2 (sib @ leaf)"
  have r: "- (2 ^ 31) \<le> toInt32 msk div 2" "toInt32 msk div 2 < 2 ^ 31"
    using toInt32_range [of msk] by simp_all
  have l: "length rest \<le> 31" using assms Cons by simp
  have c: "(toInt32 msk div 2) mod 2 ^ 31 = (msk div 2) mod 2 ^ 31"
    unfolding half_mod32 [symmetric] toInt32_mod ..
  have "calcMerkleBranch H2 leaf branch msk = branch_loop H2 rest ?acc (toInt32 msk div 2)"
    by (auto simp add: calcMerkleBranch_def Cons js_and_1 js_shr_toInt32 simp del: One_nat_def)
  also have "\<dots> = fst (fold (branch_step H2) rest (?acc, toInt32 msk div 2))"
    using calcMerkleBranch_int32 [OF r, of H2 ?acc rest]
    by (simp add: calcMerkleBranch_def verify_branch_def)
  also have "\<dots> = fst (fold (branch_step H2) rest (?acc, msk div 2))"
    by (rule verify_fold_cong [OF c l])
  also have "\<dots> = verify_branch H2 leaf branch msk"
    by (simp add: verify_branch_def Cons branch_step_def)
  finally show ?thesis .
qed

text \<open>
  Whatever the mask, the loop is the fold on its 32-bit two's complement value: \<^verbatim>\<open>&\<close>
  and \<^verbatim>\<open>>>\<close> convert their operand, and \<^verbatim>\<open>>>\<close> keeps the sign.
\<close>

lemma toInt32_eq: "toInt32 x = (x + 2 ^ 31) mod 2 ^ 32 - 2 ^ 31"
  by (simp add: toInt32_def int_word_sint)

lemma toInt32_mod2: "toInt32 x mod 2 = x mod 2"
proof -
  have "(toInt32 x mod 2 ^ 32) mod 2 = (x mod 2 ^ 32) mod 2"
    by (simp only: toInt32_mod)
  then show ?thesis by (simp add: mod_mod_cancel)
qed

lemma toInt32_id: "- (2 ^ 31) \<le> x \<Longrightarrow> x < 2 ^ 31 \<Longrightarrow> toInt32 x = x"
  by (simp add: toInt32_def sint32_of_int)

lemma branch_loop_toInt32:
  "branch_loop H2 branch acc msk = fst (fold (branch_step H2) branch (acc, toInt32 msk))"
proof (induction branch arbitrary: acc msk)
  case Nil
  then show ?case by simp
next
  case (Cons sib branch)
  have r: "- (2 ^ 31) \<le> toInt32 msk div 2" "toInt32 msk div 2 < 2 ^ 31"
    using toInt32_range [of msk] by simp_all
  show ?case
    by (simp add: Cons.IH branch_step_def js_and_1 js_shr_toInt32 toInt32_id [OF r] toInt32_mod2
        del: One_nat_def)
qed

lemma calcMerkleBranch_toInt32:
  "calcMerkleBranch H2 leaf branch msk = verify_branch H2 leaf branch (toInt32 msk)"
  by (simp add: calcMerkleBranch_def verify_branch_def branch_loop_toInt32)

lemma toInt32_2p31: "toInt32 (2 ^ 31) = - (2 ^ 31)"
  by (simp add: toInt32_def)

lemma toInt32_3: "toInt32 3 = 3"
  by (rule toInt32_id) simp_all

lemma toInt32_4294967299: "toInt32 4294967299 = 3"
  unfolding toInt32_eq by simp

lemma calcMerkleBranch_siblings34:
  "calcMerkleBranch (\<lambda>x. x) [0] siblings34 (2 ^ 31) =
     [34, 33, 32, 0, 1, 2, 3, 4, 5, 6, 7, 8, 9, 10, 11, 12, 13, 14, 15, 16, 17, 18, 19, 20, 21,
      22, 23, 24, 25, 26, 27, 28, 29, 30, 31]"
  unfolding calcMerkleBranch_toInt32 toInt32_2p31 siblings34_def
  by (simp add: verify_branch_def branch_step_def)

lemma verify_branch_siblings34:
  "verify_branch (\<lambda>x. x) [0] siblings34 (2 ^ 31) =
     [32, 0, 1, 2, 3, 4, 5, 6, 7, 8, 9, 10, 11, 12, 13, 14, 15, 16, 17, 18, 19, 20, 21, 22, 23,
      24, 25, 26, 27, 28, 29, 30, 31, 33, 34]"
  unfolding siblings34_def
  by (simp add: verify_branch_def branch_step_def)

text \<open>
  C8, the claim as stated fails. Take the mask \<open>2^31\<close> and the 34 siblings \<open>[1]\<close> to
  \<open>[34]\<close> on the leaf \<open>[0]\<close>, with the identity in the place of the hash so that the result
  shows the side of every sibling. The fold of the specification puts the sibling 32 on
  the left (the bit 31 of the mask) and the siblings 33 and 34 on the right (the mask is
  then 0). In the source \<^verbatim>\<open>mask >> 1\<close> makes the mask the signed 32-bit number \<open>- 2^30\<close>,
  the sign is kept by every further shift, the mask is \<open>- 1\<close> from the sibling 32 on, and the
  siblings 33 and 34 are put on the left too.
\<close>

theorem calcMerkleBranch_counterexample:
  "calcMerkleBranch (\<lambda>x. x) [0] siblings34 (2 ^ 31) =
     [34, 33, 32, 0, 1, 2, 3, 4, 5, 6, 7, 8, 9, 10, 11, 12, 13, 14, 15, 16, 17, 18, 19, 20, 21,
      22, 23, 24, 25, 26, 27, 28, 29, 30, 31]
   \<and> verify_branch (\<lambda>x. x) [0] siblings34 (2 ^ 31) =
     [32, 0, 1, 2, 3, 4, 5, 6, 7, 8, 9, 10, 11, 12, 13, 14, 15, 16, 17, 18, 19, 20, 21, 22, 23,
      24, 25, 26, 27, 28, 29, 30, 31, 33, 34]
   \<and> calcMerkleBranch (\<lambda>x. x) [0] siblings34 (2 ^ 31) \<noteq>
     verify_branch (\<lambda>x. x) [0] siblings34 (2 ^ 31)"
  unfolding calcMerkleBranch_siblings34 verify_branch_siblings34 by simp

text \<open>
  C8, amended. For every leaf hash, branch and mask, \<^verbatim>\<open>calcMerkleBranch\<close> is the fold over
  the branch in order on the 32-bit two's complement value of the mask: the accumulator
  starts as the leaf and becomes \<open>H2 (acc @ sibling)\<close> when the low bit of the remaining
  mask is 0 and \<open>H2 (sibling @ acc)\<close> when it is 1, the mask being shifted right one bit,
  its sign kept, per step; the final accumulator is returned. It is the fold on the mask
  itself when the mask is a signed 32-bit integer, or is any integer and the branch has at
  most 32 siblings.
\<close>

theorem calcMerkleBranch_fold:
  "calcMerkleBranch H2 leaf branch msk = verify_branch H2 leaf branch (toInt32 msk)
   \<and> ((- (2 ^ 31) \<le> msk \<and> msk < 2 ^ 31) \<or> length branch \<le> 32 \<longrightarrow>
        calcMerkleBranch H2 leaf branch msk = verify_branch H2 leaf branch msk)"
  using calcMerkleBranch_toInt32 [of H2 leaf branch msk]
    calcMerkleBranch_int32 [of msk H2 leaf branch] calcMerkleBranch_short [of branch H2 leaf msk]
  by blast

text \<open>
  The example of the source's comment: leaf 10 of a tree of eight leaves, with the
  siblings 9, 3 and 2 and the mask \<open>0b011\<close>; and the same branch under the mask
  \<open>2^32 + 3\<close>, of which the three siblings see the same low bits.
\<close>

theorem calcMerkleBranch_fold_witness:
  "\<forall>H2. ((- (2 ^ 31) \<le> (3 :: int) \<and> (3 :: int) < 2 ^ 31) \<or> length [[9], [3], [2 :: 8 word]] \<le> 32)
     \<and> calcMerkleBranch H2 [10] [[9], [3], [2]] 3 = verify_branch H2 [10] [[9], [3], [2]] 3
     \<and> calcMerkleBranch H2 [10] [[9], [3], [2]] 3 = H2 (H2 ([3] @ H2 ([9] @ [10])) @ [2])
     \<and> calcMerkleBranch H2 [10] [[9], [3], [2]] 4294967299 = H2 (H2 ([3] @ H2 ([9] @ [10])) @ [2])"
  using calcMerkleBranch_fold [of _ "[10]" "[[9], [3], [2]]" 3]
    calcMerkleBranch_fold [of _ "[10]" "[[9], [3], [2]]" 4294967299]
  by (simp add: verify_branch_def branch_step_def toInt32_3 toInt32_4294967299)

section \<open>Properties of the validator\<close>

subsection \<open>Evaluation of the byte helpers\<close>

lemma le_bytes_numeral:
  "le_bytes (numeral k) v = of_nat (v mod 256) # le_bytes (pred_numeral k) (v div 256)"
  unfolding numeral_eq_Suc [of k] by simp

lemma replicate_numeral_step: "replicate (numeral k) x = x # replicate (pred_numeral k) x"
  unfolding numeral_eq_Suc [of k] by simp

lemma length_le_bytes: "length (le_bytes n v) = n"
  by (induction n arbitrary: v) simp_all

lemma length_decodeDiffBits: "length (decodeDiffBits x) = 32"
  by (simp add: decodeDiffBits_def length_le_bytes)

lemma decode_1d00ffff:
  "decodeDiffBits 0x1d00ffff =
     [0, 0, 0, 0, 0xFF, 0xFF, 0, 0, 0, 0, 0, 0, 0, 0, 0, 0,
      0, 0, 0, 0, 0, 0, 0, 0, 0, 0, 0, 0, 0, 0, 0, 0]"
  by (simp add: decodeDiffBits_def decodeDiffBitsBig_def le_bytes_numeral)

lemma compare_zero_target: "compare_buf (rev (replicate 32 0)) (decodeDiffBits 0x1d00ffff) = - 1"
  unfolding decode_1d00ffff by (simp add: compare_buf_def replicate_numeral_step)

lemma compare_ff_target: "compare_buf (rev (replicate 32 0xFF)) (decodeDiffBits 0x1d00ffff) = 1"
  unfolding decode_1d00ffff by (simp add: compare_buf_def replicate_numeral_step)

subsection \<open>The Merkle root check\<close>

lemma checkMerkleRoot_eq:
  "checkMerkleRoot H2 txHash b txs =
     (if length (merkle_root b) = 0 then Inl (VerificationError ''No merkle root'')
      else Inl TypeError)"
  by (simp add: checkMerkleRoot_def calcMerkleRoot_def getMerkleTree_def)

lemma checkBlock_txs_fails:
  "checkBlock H2 decodeBuf txHash isCoinBase nowMs b (Some ts) \<noteq> Inr True"
  by (auto simp: checkBlock_def checkBlockTxs_def checkMerkleRoot_eq split: sum.splits)

text \<open>
  C1. The claim: with a Merkle root present, \<^verbatim>\<open>checkBlock\<close> succeeds at its last step when
  \<^verbatim>\<open>calcMerkleRoot(txs)\<close> equals the block's \<^verbatim>\<open>merkle_root\<close> and throws a
  VerificationError exactly when they differ; a missing root throws 'No merkle root'.
  The code: \<^verbatim>\<open>checkMerkleRoot\<close> calls \<^verbatim>\<open>calcMerkleRoot()\<close> without the transactions, so
  with a root present it throws a TypeError whatever the transactions are (and the
  comparison that follows throws on equality); \<^verbatim>\<open>checkBlock\<close> given transactions never
  returns \<^verbatim>\<open>true\<close>. Only the missing root behaves as claimed.
\<close>

theorem checkMerkleRoot_throws:
  "checkMerkleRoot H2 txHash b txs =
     (if length (merkle_root b) = 0 then Inl (VerificationError ''No merkle root'')
      else Inl TypeError)
   \<and> checkBlockTxs H2 txHash isCoinBase b (Some ts) \<noteq> Inr True
   \<and> checkBlock H2 decodeBuf txHash isCoinBase nowMs b (Some ts) \<noteq> Inr True"
proof -
  have "checkBlockTxs H2 txHash isCoinBase b (Some ts) \<noteq> Inr True"
    by (auto simp: checkBlockTxs_def checkMerkleRoot_eq split: sum.splits)
  then show ?thesis
    using checkMerkleRoot_eq [of H2 txHash b txs]
      checkBlock_txs_fails [of H2 decodeBuf txHash isCoinBase nowMs b ts]
    by blast
qed

subsection \<open>Proof of work\<close>

lemma le_value_append: "le_value (xs @ [x]) = le_value xs + 256 ^ length xs * uint x"
  by (induction xs) (simp_all add: algebra_simps)

lemma le_value_nonneg: "0 \<le> le_value xs"
  by (induction xs) simp_all

lemma le_value_less: "le_value xs < 256 ^ length xs"
proof (induction xs)
  case Nil
  then show ?case by simp
next
  case (Cons x xs)
  have "uint x < 256" using unsigned_less [of x, where ?'a = int] by simp
  then have "uint x + 256 * le_value xs < 256 + 256 * le_value xs" by simp
  also have "\<dots> = 256 * (le_value xs + 1)" by simp
  also have "\<dots> \<le> 256 * 256 ^ length xs" using Cons.IH by (intro mult_left_mono) simp_all
  finally show ?case by simp
qed

lemma be_value_Cons: "be_value (x # xs) = 256 ^ length xs * uint x + be_value xs"
  by (simp add: be_value_def le_value_append)

lemma be_value_less: "be_value xs < 256 ^ length xs"
  using le_value_less [of "rev xs"] by (simp add: be_value_def)

lemma be_value_nonneg: "0 \<le> be_value xs"
  by (simp add: be_value_def le_value_nonneg)

text \<open>On buffers of one length, \<^verbatim>\<open>compare\<close> is the comparison of the big-endian values.\<close>

lemma memcmp_numeric:
  "length xs = length ys \<Longrightarrow> (0 < memcmp xs ys) = (be_value ys < be_value xs)"
proof (induction xs ys rule: list_induct2)
  case Nil
  then show ?case by (simp add: be_value_def)
next
  case (Cons x xs y ys)
  let ?p = "256 ^ length ys :: int"
  have bx: "be_value xs < ?p" using be_value_less [of xs] Cons.hyps by simp
  have by': "be_value ys < ?p" using be_value_less [of ys] by simp
  show ?case
  proof (cases "x < y")
    case True
    then have "uint x + 1 \<le> uint y" by (simp add: word_less_def)
    then have "?p * (uint x + 1) \<le> ?p * uint y" by (intro mult_left_mono) simp_all
    then have "be_value (x # xs) < be_value (y # ys)"
      using bx be_value_nonneg [of ys] Cons.hyps by (simp add: be_value_Cons algebra_simps)
    then show ?thesis using True by simp
  next
    case False
    show ?thesis
    proof (cases "y < x")
      case True
      then have "uint y + 1 \<le> uint x" by (simp add: word_less_def)
      then have "?p * (uint y + 1) \<le> ?p * uint x" by (intro mult_left_mono) simp_all
      then have "be_value (y # ys) < be_value (x # xs)"
        using by' be_value_nonneg [of xs] Cons.hyps by (simp add: be_value_Cons algebra_simps)
      then show ?thesis using True False by simp
    next
      case nlt: False
      with False have "x = y" by simp
      then show ?thesis using Cons.IH Cons.hyps by (simp add: be_value_Cons)
    qed
  qed
qed

lemma compare_buf_numeric:
  "length xs = length ys \<Longrightarrow> (0 < compare_buf xs ys) = (be_value ys < be_value xs)"
  by (simp add: compare_buf_def memcmp_numeric)

lemma powBlock_facts:
  "\<not> isAuxPOW (powBlock h)" "bits (powBlock h) = 0x1d00ffff"
  "h \<noteq> [] \<Longrightarrow> getHash H2 (powBlock h) = h"
  by (simp_all add: isAuxPOW_def powBlock_def mainCfg_def getHash_def)

text \<open>
  C2, the claim as stated fails. The two blocks \<open>powBlock (replicate 32 0)\<close> and
  \<open>powBlock (replicate 32 0xFF)\<close> have the same header, so the same \<^verbatim>\<open>calcHash()\<close>, and
  the same \<^verbatim>\<open>bits\<close>, and no auxiliary proof of work; the first passes
  \<^verbatim>\<open>checkProofOfWork\<close> and the second fails: the hash compared is the stored one. And
  \<open>auxBlock\<close> is refused for its chain id although the hash compared, the stored parent
  hash, is below the target.
\<close>

theorem checkProofOfWork_counterexample:
  "\<forall>H2. checkProofOfWork H2 decodeDiffBits (powBlock (replicate 32 0)) = Inr True
      \<and> checkProofOfWork H2 decodeDiffBits (powBlock (replicate 32 0xFF)) =
          Inl (VerificationError ''Difficulty target not met'')
      \<and> calcHash H2 (powBlock (replicate 32 0)) = calcHash H2 (powBlock (replicate 32 0xFF))
      \<and> bits (powBlock (replicate 32 0)) = bits (powBlock (replicate 32 0xFF))
      \<and> \<not> isAuxPOW (powBlock (replicate 32 0)) \<and> \<not> isAuxPOW (powBlock (replicate 32 0xFF))
      \<and> isAuxPOW auxBlock
      \<and> powHash H2 auxBlock = Some (replicate 32 0)
      \<and> compare_buf (rev (replicate 32 0)) (decodeDiffBits (bits auxBlock)) = - 1
      \<and> checkProofOfWork H2 decodeDiffBits auxBlock =
          Inl (VerificationError ''Auxiliary Chain ID is not our chain'')"
proof (intro allI conjI)
  fix H2
  have g0: "getHash H2 (powBlock (replicate 32 0)) = replicate 32 0"
    by (simp add: powBlock_facts)
  have gF: "getHash H2 (powBlock (replicate 32 0xFF)) = replicate 32 0xFF"
    by (simp add: powBlock_facts)
  show "checkProofOfWork H2 decodeDiffBits (powBlock (replicate 32 0)) = Inr True"
    using compare_zero_target by (simp add: checkProofOfWork_def g0 powBlock_facts(1,2))
  show "checkProofOfWork H2 decodeDiffBits (powBlock (replicate 32 0xFF)) =
      Inl (VerificationError ''Difficulty target not met'')"
    using compare_ff_target by (simp add: checkProofOfWork_def gF powBlock_facts(1,2))
  show "calcHash H2 (powBlock (replicate 32 0)) = calcHash H2 (powBlock (replicate 32 0xFF))"
    by (simp add: calcHash_def getHeader_def powBlock_def)
  show "bits (powBlock (replicate 32 0)) = bits (powBlock (replicate 32 0xFF))"
    by (simp add: powBlock_facts)
  show "\<not> isAuxPOW (powBlock (replicate 32 0))" "\<not> isAuxPOW (powBlock (replicate 32 0xFF))"
    by (simp_all add: powBlock_facts)
  show a: "isAuxPOW auxBlock"
    by (simp add: isAuxPOW_def auxBlock_def auxCfg_def js_and_def)
  show "powHash H2 auxBlock = Some (replicate 32 0)"
    using a by (simp add: powHash_def auxBlock_def auxParent_def getHash_def)
  show "compare_buf (rev (replicate 32 0)) (decodeDiffBits (bits auxBlock)) = - 1"
    using compare_zero_target by (simp add: auxBlock_def)
  have c: "getAuxChainID auxBlock = 2"
    by (simp add: getAuxChainID_def auxBlock_def js_shr_def sint_signed_drop_bit_eq drop_bit_eq_div)
  show "checkProofOfWork H2 decodeDiffBits auxBlock =
      Inl (VerificationError ''Auxiliary Chain ID is not our chain'')"
    using a by (simp add: checkProofOfWork_def c) (simp add: auxBlock_def auxCfg_def)
qed

text \<open>
  C2, amended. When the auxiliary proof of work is in effect and the chain id of the block
  (\<^verbatim>\<open>version >> 16\<close>) is not the configured one, \<^verbatim>\<open>checkProofOfWork\<close> throws a
  VerificationError. Otherwise it selects \<^verbatim>\<open>aux.parent.getHash()\<close> under auxiliary proof
  of work and the block's own \<^verbatim>\<open>getHash()\<close> without, that is the stored hash when there is
  one and the hash of the header only when there is none, reverses it, and throws a
  VerificationError exactly when the reversed hash, read as a big-endian number, is
  greater than the target decoded from \<^verbatim>\<open>bits\<close> (both of one length); it returns
  \<^verbatim>\<open>true\<close> when it is less or equal.
\<close>

theorem checkProofOfWork_stored_hash:
  assumes "powHash H2 b = Some h" and "length h = length (decodeBuf (bits b))"
  shows "checkProofOfWork H2 decodeBuf b =
     (if isAuxPOW b \<and> getAuxChainID b \<noteq> auxPOWChain (cfg b)
      then Inl (VerificationError ''Auxiliary Chain ID is not our chain'')
      else if be_value (decodeBuf (bits b)) < be_value (rev h)
      then Inl (VerificationError ''Difficulty target not met'')
      else Inr True)"
proof -
  have c: "(0 < compare_buf (rev h) (decodeBuf (bits b))) =
      (be_value (decodeBuf (bits b)) < be_value (rev h))"
    by (rule compare_buf_numeric) (simp add: assms(2))
  show ?thesis
    using assms(1) c
    by (auto simp: checkProofOfWork_def powHash_def Let_def split: if_splits option.splits)
qed

theorem checkProofOfWork_stored_hash_witness:
  "\<forall>H2. powHash H2 (powBlock (replicate 32 0)) = Some (replicate 32 0)
     \<and> length (replicate 32 (0 :: 8 word)) = length (decodeDiffBits (bits (powBlock (replicate 32 0))))
     \<and> checkProofOfWork H2 decodeDiffBits (powBlock (replicate 32 0)) = Inr True"
proof
  fix H2
  have p: "powHash H2 (powBlock (replicate 32 0)) = Some (replicate 32 0)"
    by (simp add: powHash_def powBlock_facts)
  have l: "length (replicate 32 (0 :: 8 word)) = length (decodeDiffBits (bits (powBlock (replicate 32 0))))"
    by (simp add: length_decodeDiffBits)
  have "\<not> be_value (decodeDiffBits 0x1d00ffff) < be_value (rev (replicate 32 0))"
    using compare_buf_numeric [of "rev (replicate 32 0)" "decodeDiffBits 0x1d00ffff"]
      compare_zero_target
    by (simp add: length_decodeDiffBits)
  then have "checkProofOfWork H2 decodeDiffBits (powBlock (replicate 32 0)) = Inr True"
    using checkProofOfWork_stored_hash
      [of H2 "powBlock (replicate 32 0)" "replicate 32 0" decodeDiffBits, OF p l]
    by (simp add: powBlock_facts)
  then show "powHash H2 (powBlock (replicate 32 0)) = Some (replicate 32 0)
     \<and> length (replicate 32 (0 :: 8 word)) = length (decodeDiffBits (bits (powBlock (replicate 32 0))))
     \<and> checkProofOfWork H2 decodeDiffBits (powBlock (replicate 32 0)) = Inr True"
    using p l by simp
qed

subsection \<open>The work of a block\<close>

text \<open>
  C9. \<^verbatim>\<open>getWork\<close> returns \<open>floor (2^256 / (target + 1))\<close>, where the target is the
  unsigned decoding of the compact \<^verbatim>\<open>bits\<close> field; with the codec of the specification a
  block of \<^verbatim>\<open>bits = 0x1d00ffff\<close> has the work \<open>4295032833\<close>.
\<close>

theorem getWork_unsigned:
  "getWork decodeBig b = 2 ^ 256 div (decodeBig (bits b) + 1)
   \<and> getWork decodeDiffBitsBig (b\<lparr>bits := 0x1d00ffff\<rparr>) = 4295032833"
  by (simp add: getWork_def largestHash_def decodeDiffBitsBig_def)

subsection \<open>The coinbase script of the auxiliary proof of work\<close>

lemma auxRand_1: "auxRand 1 0 = 1217759518843121920"
  unfolding auxRand_def Let_def
  by (simp add: js_add_def js_mul_def round_number_def round_double_def bit_length.simps)

lemma auxRand32_1: "auxRand32 1 0 = 2524885223"
  unfolding auxRand32_def Let_def by simp

lemma auxScript_reads:
  "readUInt32LE auxScript 36 = Inr 2" "readUInt32LE auxScript 40 = Inr 1"
  unfolding auxScript_def
  by (simp_all add: readUInt32LE_def mergedMiningHeader_def word32le_def le_bytes_numeral
      replicate_numeral_step)

text \<open>
  When the merged mining header is found once, at \<open>p\<close>, and the hash right after it,
  \<^verbatim>\<open>checkAuxCoinbase\<close> ends in the check of the script data at \<open>p + 4\<close>.
\<close>

lemma checkAuxCoinbase_script_data:
  assumes "aux b = Some a" and "ins (coinbase a) = in0 # rest"
    and "indexOf (s_in in0) mergedMiningHeader 0 = int p"
    and "indexOf (s_in in0) mergedMiningHeader (p + 1) = - 1"
    and "indexOf (s_in in0) (auxEmbeddedHash H2 b a) 0 = int p + 4"
  shows "checkAuxCoinbase H2 b =
     checkAuxScriptData (s_in in0) (int p + 4) (length (blockchain_branch a))
       (blockchain_branch_mask a) (auxPOWChain (cfg b))"
  using assms by (simp add: checkAuxCoinbase_def Let_def mergedMiningHeader_def)

text \<open>
  C4. The claim: the mask must equal \<open>rand mod size\<close> with every step of \<open>rand\<close> taken
  modulo \<open>2^32\<close>. The code computes \<open>rand\<close> in JavaScript numbers, without reduction: for
  the nonce 1 and the chain 0 the products pass \<open>2^53\<close> and are rounded, \<open>rand\<close> ends as
  \<open>1217759518843121920\<close>, a multiple of 256, and with the size 2 the code accepts the
  mask 0 and refuses the mask 1, where the generator modulo \<open>2^32\<close> gives \<open>2524885223\<close>,
  an odd number, and so the mask 1. The reads at \<open>p + 32\<close> and \<open>p + 36\<close> and the size
  check are as claimed.
\<close>

theorem checkAuxCoinbase_rand_not_mod32:
  "checkAuxScriptData auxScript 4 1 1 0 =
     Inl (VerificationError ''AuxPOW blockchain bitmask does not match coinbase script'')
   \<and> checkAuxScriptData auxScript 4 1 0 0 = Inr ()
   \<and> auxRand 1 0 = 1217759518843121920
   \<and> auxRand32 1 0 = 2524885223
   \<and> auxRand32 1 0 mod 2 = 1"
  by (simp add: checkAuxScriptData_def auxScript_reads auxRand_1 auxRand32_1 js_shl1_def
      toInt32_def js_rem_def)

section \<open>Properties of the chain rules\<close>

subsection \<open>Median time past\<close>

lemma medianHeights_eq:
  "medianHeights k (int h) = map (\<lambda>i. int h - int i) [0..<min k (h + 1)]"
proof (induction k arbitrary: h)
  case 0
  then show ?case by simp
next
  case (Suc k)
  show ?case
  proof (cases h)
    case 0
    then show ?thesis by (cases k) simp_all
  next
    case (Suc h')
    have "medianHeights (Suc k) (int h) = int h # medianHeights k (int h')"
      using Suc by simp
    also have "medianHeights k (int h') = map (\<lambda>i. int h' - int i) [0..<min k (h' + 1)]"
      by (rule Suc.IH)
    also have "\<dots> = map (\<lambda>i. int h - int (Suc i)) [0..<min k (h' + 1)]"
      using Suc by simp
    also have "\<dots> = map (\<lambda>i. int h - int i) (map Suc [0..<min k (h' + 1)])"
      by (simp add: comp_def)
    also have "map Suc [0..<min k (h' + 1)] = [1..<Suc (min k (h' + 1))]"
      by (simp add: map_Suc_upt)
    finally have "medianHeights (Suc k) (int h) =
        map (\<lambda>i. int h - int i) (0 # [1..<Suc (min k (h' + 1))])"
      by simp
    also have "0 # [1..<Suc (min k (h' + 1))] = [0..<Suc (min k (h' + 1))]"
      by (simp add: upt_rec [of 0])
    also have "Suc (min k (h' + 1)) = min (Suc k) (h + 1)"
      using Suc by simp
    finally show ?thesis .
  qed
qed

lemma medianHeights_numeral:
  "medianHeights (numeral k) h = (if 0 \<le> h then h # medianHeights (pred_numeral k) (h - 1) else [])"
  unfolding numeral_eq_Suc [of k] by simp

lemma heightsS5: "medianHeights medianTimeSpan 10 = [10, 9, 8, 7, 6, 5, 4, 3, 2, 1, 0]"
  by (simp add: medianTimeSpan_def medianHeights_numeral)

lemma toString_digits:
  "toString 1 = ''1''" "toString 2 = ''2''" "toString 3 = ''3''" "toString 4 = ''4''"
  "toString 5 = ''5''" "toString 6 = ''6''" "toString 7 = ''7''" "toString 8 = ''8''"
  "toString 9 = ''9''" "toString 10 = ''10''" "toString 11 = ''11''" "toString (Suc 0) = ''1''"
  by (simp_all add: toString.simps digit_char_def)

lemma sortS5: "js_sort [7, 2, 5, 1, 9, 3, 8, 4, 6, 10, 11] = [1, 10, 11, 2, 3, 4, 5, 6, 7, 8, 9]"
  by (simp add: js_sort_def toString_digits)

text \<open>
  C3. The claim: the timestamps of the last \<open>min (11, h + 1)\<close> blocks are sorted in
  ascending numeric order and the element at the index \<open>floor (len / 2)\<close> is returned, 6
  for the timestamps of S5. The code fetches those blocks (\<open>medianHeights_eq\<close>) and takes
  that index, but \<^verbatim>\<open>timestamps.sort()\<close> has no comparison function and orders the numbers
  as strings: on S5 the order is 1, 10, 11, 2, 3, 4, 5, 6, 7, 8, 9 and the result is 4,
  where the numeric median is 6.
\<close>

theorem getMedianTimePast_sorts_as_strings:
  "getMedianTimePast chainS5 (plainBlock 10 7 0x1d00ffff) = Inr 4
   \<and> sort timestampsS5 ! (length timestampsS5 div 2) = 6"
proof
  let ?bl = "map (\<lambda>(h, t). Some (plainBlock h t 0x1d00ffff))
       [(10, 7), (9, 2), (8, 5), (7, 1), (6, 9), (5, 3), (4, 8), (3, 4), (2, 6), (1, 10), (0, 11)]"
  have h: "medianHeights medianTimeSpan (int (height (plainBlock 10 7 0x1d00ffff))) =
      [10, 9, 8, 7, 6, 5, 4, 3, 2, 1, 0]"
    by (simp add: plainBlock_def heightsS5)
  have b: "getBlocksByHeights chainS5 [10, 9, 8, 7, 6, 5, 4, 3, 2, 1, 0] = Inr ?bl"
    by (simp add: chainS5_def timestampsS5_def)
  have t: "blockTimestamps ?bl = Inr [7, 2, 5, 1, 9, 3, 8, 4, 6, 10, 11]"
    by (simp add: plainBlock_def)
  have "getMedianTimePast chainS5 (plainBlock 10 7 0x1d00ffff) =
      Inr ([1, 10, 11, 2, 3, 4, 5, 6, 7, 8, 9] ! (length [1, 10, 11, 2, 3, 4, 5, 6, 7, 8, 9 :: nat] div 2))"
    by (simp only: getMedianTimePast_def h Let_def b t sortS5 sum.case)
  then show "getMedianTimePast chainS5 (plainBlock 10 7 0x1d00ffff) = Inr 4"
    by simp
  show "sort timestampsS5 ! (length timestampsS5 div 2) = 6"
    by (simp add: timestampsS5_def)
qed

subsection \<open>The next difficulty\<close>

lemma lookFor_genesis:
  "height blk = 0 \<Longrightarrow> lookForLastNonMinDiff chain interval powLimit blk = Some (Inr (bits blk))"
  by (subst lookForLastNonMinDiff.simps) simp

lemma retarget_eq:
  "retarget decodeBig encode chain self (Inr (Some anchor)) =
     Inr (encode (min
       (decodeBig (bits self) *
          clampTimespan (getTargetTimespan chain) (int (timestamp self) - int (timestamp anchor))
        div getTargetTimespan chain)
       (decodeBig (getMinDiff chain))))"
proof -
  let ?T = "getTargetTimespan chain"
  let ?a0 = "int (timestamp self) - int (timestamp anchor)"
  let ?a1 = "if ?a0 < int (?T div 4) then int (?T div 4) else ?a0"
  let ?a2 = "if int (?T * 4) < ?a1 then int (?T * 4) else ?a1"
  let ?c = "clampTimespan ?T ?a0"
  have g: "(if hi < (if a < lo then lo else a) then hi else (if a < lo then lo else a)) =
      min hi (max lo a)" for hi lo a :: int
    by (auto simp: min_def max_def)
  have "0 \<le> min (int (?T * 4)) (max (int (?T div 4)) ?a0)"
    by simp
  then have a2: "?a2 = int ?c"
    unfolding g clampTimespan_def by simp
  have n: "(int (decodeBig (bits self)) * int ?c) div int ?T = int (decodeBig (bits self) * ?c div ?T)"
    by (simp add: zdiv_int)
  have m: "nat (if int p < int x then int p else int x) = min x p" for p x :: nat
    by (simp add: min_def)
  show ?thesis
    unfolding retarget_def Let_def sum.case option.case a2 n m ..
qed

lemma getNextWork_boundary:
  assumes "(height self + 1) mod (getTargetTimespan chain div getTargetSpacing chain) = 0"
  shows "getNextWork decodeBig encode chain self nextTimestamp callback st =
     Some (callback
       (retarget decodeBig encode chain self
          (getBlockByHeight chain
             (int (height self) - int (getTargetTimespan chain div getTargetSpacing chain) + 1
              - (if 0 < fullRetargetStart (cfg self) \<and> fullRetargetStart (cfg self) \<le> int (height self)
                 then 1 else 0))))
       (if height self = 0 then callback (Inr (bits self)) st else st))"
  using assms by (simp add: getNextWork_def Let_def)

text \<open>
  C5. For every block at a retarget boundary, \<open>(height + 1) mod interval = 0\<close>, on a chain
  whose lookup succeeds (and whose spacing and 4 divide the timespan, so that the
  quotients of the source are integers), \<^verbatim>\<open>getNextWork\<close> fetches the anchor at
  \<open>height - interval + 1\<close>, one lower when \<open>height \<ge> fullRetargetStart > 0\<close>, clamps
  \<open>this.timestamp - anchor.timestamp\<close> into \<open>[timespan / 4, timespan * 4]\<close>, and calls back
  with the encoding of \<open>decode (this.bits) * actual / timespan\<close> capped by the decoded
  \<^verbatim>\<open>pow_limit\<close>. (For the genesis block, which is at a boundary only when the interval is
  1, the statement for the genesis block has called back before.) On S4 the result is
  \<open>0x1d00ffff\<close>.
\<close>

theorem getNextWork_retarget:
  assumes "0 < getTargetSpacing chain"
    and "getTargetSpacing chain dvd getTargetTimespan chain"
    and "4 dvd getTargetTimespan chain"
    and "(height self + 1) mod (getTargetTimespan chain div getTargetSpacing chain) = 0"
    and "getBlockByHeight chain
           (int (height self) - int (getTargetTimespan chain div getTargetSpacing chain) + 1
            - (if 0 < fullRetargetStart (cfg self) \<and> fullRetargetStart (cfg self) \<le> int (height self)
               then 1 else 0)) = Inr (Some anchor)"
  shows "getNextWork decodeBig encode chain self nextTimestamp callback st =
     Some (callback
       (Inr (encode (min
          (decodeBig (bits self) *
             clampTimespan (getTargetTimespan chain) (int (timestamp self) - int (timestamp anchor))
           div getTargetTimespan chain)
          (decodeBig (getMinDiff chain)))))
       (if height self = 0 then callback (Inr (bits self)) st else st))"
  unfolding getNextWork_boundary [OF assms(4)] assms(5) retarget_eq ..

lemma decodeDiffBitsBig_1d00ffff: "decodeDiffBitsBig 0x1d00ffff = 0xffff * 256 ^ 26"
  by (simp add: decodeDiffBitsBig_def)

lemma encodeDiffBits_limit: "encodeDiffBits (0xffff * 256 ^ 26) = 0x1d00ffff"
  by (simp add: encodeDiffBits_def byte_length.simps)

theorem getNextWork_retarget_witness:
  "0 < getTargetSpacing chainS4
   \<and> getTargetSpacing chainS4 dvd getTargetTimespan chainS4
   \<and> 4 dvd getTargetTimespan chainS4
   \<and> (height blockS4 + 1) mod (getTargetTimespan chainS4 div getTargetSpacing chainS4) = 0
   \<and> int (timestamp blockS4) - int (timestamp (plainBlock 0 1231006505 0x1d00ffff))
        = 4 * int (getTargetTimespan chainS4)
   \<and> getNextWork decodeDiffBitsBig encodeDiffBits chainS4 blockS4 (\<lambda>_. 0) (\<lambda>r log. log @ [r]) []
        = Some [Inr 0x1d00ffff]"
proof -
  have c: "getTargetSpacing chainS4 = 600" "getTargetTimespan chainS4 = 1209600"
    "getMinDiff chainS4 = 0x1d00ffff"
    by (simp_all add: chainS4_def)
  have b: "height blockS4 = 2015" "bits blockS4 = 0x1d00ffff"
    "timestamp blockS4 = 1231006505 + 4 * 1209600" "fullRetargetStart (cfg blockS4) = 0"
    by (simp_all add: blockS4_def plainBlock_def mainCfg_def)
  have h1: "0 < getTargetSpacing chainS4" and h2: "getTargetSpacing chainS4 dvd getTargetTimespan chainS4"
    and h3: "4 dvd getTargetTimespan chainS4"
    and h4: "(height blockS4 + 1) mod (getTargetTimespan chainS4 div getTargetSpacing chainS4) = 0"
    by (simp_all add: c b)
  have h5: "getBlockByHeight chainS4
           (int (height blockS4) - int (getTargetTimespan chainS4 div getTargetSpacing chainS4) + 1
            - (if 0 < fullRetargetStart (cfg blockS4) \<and> fullRetargetStart (cfg blockS4) \<le> int (height blockS4)
               then 1 else 0)) = Inr (Some (plainBlock 0 1231006505 0x1d00ffff))"
    unfolding c b by (simp add: chainS4_def)
  have t: "int (timestamp blockS4) - int (timestamp (plainBlock 0 1231006505 0x1d00ffff))
        = 4 * int (getTargetTimespan chainS4)"
    by (simp add: b c plainBlock_def)
  have cl: "clampTimespan 1209600 4838400 = 4838400"
    by (simp add: clampTimespan_def)
  have "getNextWork decodeDiffBitsBig encodeDiffBits chainS4 blockS4 (\<lambda>_. 0) (\<lambda>r log. log @ [r]) []
        = Some [Inr 0x1d00ffff]"
    unfolding getNextWork_retarget [OF h1 h2 h3 h4 h5] t
    unfolding c b decodeDiffBitsBig_1d00ffff
    by (simp add: cl encodeDiffBits_limit [simplified])
  then show ?thesis
    using h1 h2 h3 h4 t by blast
qed

text \<open>
  C6. The claim: for the genesis block \<^verbatim>\<open>getNextWork\<close> delivers \<^verbatim>\<open>this.bits\<close>, exactly once,
  whatever the network. The code: \<^verbatim>\<open>if (this.height == 0) { callback(null, this.bits); }\<close>
  does not return, so for every genesis block the callback is called twice, first with
  \<^verbatim>\<open>this.bits\<close>: on the main network the second call repeats \<^verbatim>\<open>this.bits\<close>, and on the
  testnet, with a next block more than two spacings later, it delivers the minimum
  difficulty instead.
\<close>

theorem getNextWork_genesis_twice:
  "(\<exists>r. getNextWork decodeBig encode chain (self\<lparr>height := 0\<rparr>) nextTimestamp
        (\<lambda>r log. log @ [r]) [] = Some [Inr (bits self), r])
   \<and> getNextWork decodeBig encode chainS4 (plainBlock 0 1231006505 0x1d00ffff) nextTimestamp
        (\<lambda>r log. log @ [r]) [] = Some [Inr 0x1d00ffff, Inr 0x1d00ffff]
   \<and> getNextWork decodeBig encode (chainS4\<lparr>isTestnet := True\<rparr>) (plainBlock 0 1231006505 0x1c00ffff)
        (\<lambda>_. 1231006505 + 1201) (\<lambda>r log. log @ [r]) [] = Some [Inr 0x1c00ffff, Inr 0x1d00ffff]"
  by (simp add: getNextWork_def Let_def lookFor_genesis chainS4_def plainBlock_def)

subsection \<open>Preparing the next block\<close>


lemma nextWorkCallback_exhausted:
  "steps_left st = 0 \<Longrightarrow>
   nextWorkCallback H2 txHash cop bv pk self bf tm (Inr v) st = st"
  "steps_left st = 0 \<Longrightarrow>
   nextWorkCallback H2 txHash cop bv pk self bf tm (Inl e) st = st\<lparr>uncaught := uncaught st @ [e]\<rparr>"
  by (simp_all add: nextWorkCallback_def)

lemma nextWorkCallback_first:
  assumes "steps_left st \<noteq> 0"
  shows "steps_left (nextWorkCallback H2 txHash cop bv pk self bf tm r st) = 0"
    and "deliveredBits (nextWorkCallback H2 txHash cop bv pk self bf tm r st) = deliveredBits st @ [r]"
    and "uncaught (nextWorkCallback H2 txHash cop bv pk self bf tm r st) = uncaught st"
  using assms
  by (cases r; simp add: nextWorkCallback_def deliveredBits_def calcMerkleRoot_eq Let_def)+


lemma obs_callback:
  "obs (nextWorkCallback H2 txHash cop bv pk self bf tm r st) = obsStep r (obs st)"
proof (cases "steps_left st = 0")
  case True
  then show ?thesis
    by (cases r) (simp_all add: obs_def obsStep_def nextWorkCallback_exhausted deliveredBits_def)
next
  case False
  then show ?thesis
    by (simp add: obs_def obsStep_def nextWorkCallback_first)
qed

lemma obsStep_value_done: "fst p = 0 \<Longrightarrow> obsStep (Inr v) p = p"
  by (cases p) (simp add: obsStep_def)

lemma obs_getNextWork:
  assumes ts: "height self \<noteq> 0 \<Longrightarrow> timestamp (newBlock st) = timestamp (newBlock st')"
    and o: "obs st = obs st'" and live: "steps_left st \<noteq> 0"
  shows "map_option obs (getNextWork decodeBig encode chain self (\<lambda>st. timestamp (newBlock st))
            (nextWorkCallback H2 txHash cop bv pk self bf tm) st) =
         map_option obs (getNextWork decodeBig encode chain self (\<lambda>st. timestamp (newBlock st))
            (nextWorkCallback H2 txHash cop bv pk self bf tm') st')"
proof (cases "height self = 0")
  case True
  let ?c = "nextWorkCallback H2 txHash cop bv pk self bf tm"
  let ?c' = "nextWorkCallback H2 txHash cop bv pk self bf tm'"
  have live': "steps_left st' \<noteq> 0"
    using live o by (simp add: obs_def)
  have o1: "obs (?c (Inr b0) st) = obs (?c' (Inr b0) st')" for b0
    by (simp add: obs_callback o)
  have z: "fst (obs (?c (Inr b0) st)) = 0" "fst (obs (?c' (Inr b0) st')) = 0" for b0
    using nextWorkCallback_first(1) [OF live] nextWorkCallback_first(1) [OF live']
    by (simp_all add: obs_def)
  have v: "obs (?c (Inr x) (?c (Inr b0) st)) = obs (?c' (Inr y) (?c' (Inr b0) st'))" for x y b0
    using z [of b0] o1 [of b0]
    by (simp add: obs_callback [of _ _ _ _ _ _ _ _ "Inr _"] obsStep_value_done)
  have e: "obs (?c r (?c (Inr b0) st)) = obs (?c' r (?c' (Inr b0) st'))" for r b0
    using o1 [of b0] by (simp add: obs_callback [of _ _ _ _ _ _ _ _ r])
  show ?thesis
    using True v e
    by (simp add: getNextWork_def Let_def lookFor_genesis)
next
  case False
  then have t: "timestamp (newBlock st) = timestamp (newBlock st')"
    by (rule ts)
  have e: "obs (nextWorkCallback H2 txHash cop bv pk self bf tm r st) =
      obs (nextWorkCallback H2 txHash cop bv pk self bf tm' r st')" for r
    by (simp add: obs_callback o)
  show ?thesis
    using False t e
    by (simp add: getNextWork_def Let_def split: option.splits)
qed

lemma prepareNextBlock_obs:
  "map_option obs (prepareNextBlock H2 txHash decodeBig encode cop bv pk chain self bf t1 now1) =
   map_option obs (prepareNextBlock H2 txHash decodeBig encode cop bv pk chain self bf t2 now2)"
proof (cases "getMedianTimePast chain self")
  case (Inl e)
  then show ?thesis by (simp add: prepareNextBlock_def)
next
  case (Inr m)
  show ?thesis
    unfolding prepareNextBlock_def Let_def Inr sum.case
    by (rule obs_getNextWork) simp_all
qed

lemma prepareNextBlock_bits:
  "map_option deliveredBits (prepareNextBlock H2 txHash decodeBig encode cop bv pk chain self bf t1 now1) =
   map_option deliveredBits (prepareNextBlock H2 txHash decodeBig encode cop bv pk chain self bf t2 now2)"
proof -
  have "map_option (fst \<circ> snd) (map_option obs x) = map_option deliveredBits x" for x
    by (cases x) (simp_all add: obs_def)
  then show ?thesis
    using prepareNextBlock_obs [of H2 txHash decodeBig encode cop bv pk chain self bf t1 now1 t2 now2]
    by metis
qed


lemma obs_getNextWork_main:
  assumes "\<not> isTestnet chain" and "steps_left st = 3" and "deliveredBits st = []"
  shows "\<exists>st' r. getNextWork decodeBig encode chain self (\<lambda>st. timestamp (newBlock st))
            (nextWorkCallback H2 txHash cop bv pk self bf tm) st = Some st'
          \<and> deliveredBits st' = [r]"
proof -
  let ?c = "nextWorkCallback H2 txHash cop bv pk self bf tm"
  have live: "steps_left st \<noteq> 0" using assms(2) by simp
  have one: "deliveredBits (?c r st) = [r]" for r
    by (simp add: nextWorkCallback_first(2) [OF live] assms(3))
  have fin: "steps_left (?c r st) = 0" for r
    by (rule nextWorkCallback_first(1) [OF live])
  have two: "deliveredBits (?c r' (?c r st)) = [r]" for r r'
    using fin [of r] one [of r]
    by (cases r') (simp_all add: nextWorkCallback_exhausted deliveredBits_def)
  show ?thesis
    using assms(1) one two
    by (simp add: getNextWork_def Let_def)
qed

lemma prepareNextBlock_delivers:
  "\<exists>st' r. prepareNextBlock H2 txHash decodeBig encode cop bv pk (chain\<lparr>isTestnet := False\<rparr>)
       self bf t now = Some st' \<and> deliveredBits st' = [r]"
proof (cases "getMedianTimePast (chain\<lparr>isTestnet := False\<rparr>) self")
  case (Inl e)
  then show ?thesis by (simp add: prepareNextBlock_def deliveredBits_def)
next
  case (Inr m)
  show ?thesis
    unfolding prepareNextBlock_def Let_def Inr sum.case
    by (rule obs_getNextWork_main) (simp_all add: deliveredBits_def)
qed


text \<open>
  On the testnet chain of two blocks the draft after the block 1 gets the bits of its parent
  whatever the time argument and the clock are, also when they lie more than twenty minutes
  after the parent: the rule of the minimum difficulty reads the timestamp 0 of the draft.
\<close>

lemma getMedianTimePast_chainTest: "getMedianTimePast chainTest (testBlock 1) = Inr 2000"
proof -
  have h: "medianHeights medianTimeSpan (int (height (testBlock 1))) = [1, 0]"
    by (simp add: testBlock_def plainBlock_def medianTimeSpan_def medianHeights_numeral)
  have b: "getBlocksByHeights chainTest [1, 0] = Inr [Some (testBlock 1), Some (testBlock 0)]"
    by (simp add: chainTest_def)
  have t: "blockTimestamps [Some (testBlock 1), Some (testBlock 0)] = Inr [2000, 1000]"
    by (simp add: testBlock_def plainBlock_def)
  have s: "js_sort [2000, 1000] = [1000, 2000]"
    by (simp add: js_sort_def toString.simps digit_char_def)
  have "getMedianTimePast chainTest (testBlock 1) =
      Inr ([1000, 2000] ! (length [1000, 2000 :: nat] div 2))"
    by (simp only: getMedianTimePast_def h Let_def b t s sum.case)
  then show ?thesis by simp
qed

lemma prepareNextBlock_chainTest:
  "map_option deliveredBits
     (prepareNextBlock H2 txHash decodeBig encode cop bv pk chainTest (testBlock 1) bf tm now) =
   Some [Inr 0x1c00ffff]"
proof -
  let ?st0 = "\<lparr>steps_left = 3, newBlock = newBlockOf (cfg (testBlock 1)), delivered = [],
    uncaught = []\<rparr>"
  have live: "steps_left ?st0 \<noteq> 0" by simp
  have e: "deliveredBits ?st0 = []" by (simp add: deliveredBits_def)
  have d: "deliveredBits (nextWorkCallback H2 txHash cop bv pk (testBlock 1) bf t r ?st0) = [r]"
    for t r
    unfolding nextWorkCallback_first(2) [OF live] e by simp
  have g: "getNextWork decodeBig encode chainTest (testBlock 1) (\<lambda>st. timestamp (newBlock st)) cb ?st0 =
      Some (cb (Inr 0x1c00ffff) ?st0)" for cb
    by (simp add: getNextWork_def Let_def chainTest_def testBlock_def plainBlock_def newBlockOf_def)
  show ?thesis
    unfolding prepareNextBlock_def Let_def getMedianTimePast_chainTest sum.case g
    by (simp add: d del: One_nat_def)
qed


text \<open>
  C10. For every parent block, chain and beneficiary and any two values of the optional
  time parameter (and of the clock), \<^verbatim>\<open>prepareNextBlock\<close> delivers the same bits: the
  callback receives the same errors and draft blocks of equal bits, or \<^verbatim>\<open>getNextWork\<close>
  ends in neither run. \<^verbatim>\<open>getNextWork\<close> is called on the draft block while its timestamp is
  still 0, and what it reads after the timestamp is set (under a genesis parent) no longer
  reaches the draft. Off the testnet a result is always delivered, and exactly one; and on
  the testnet chain of two blocks the draft gets the bits \<open>0x1c00ffff\<close> of its parent, not
  the minimum difficulty, for every time argument.
\<close>

theorem prepareNextBlock_time_independent:
  "map_option deliveredBits
     (prepareNextBlock H2 txHash decodeBig encode cop bv pk chain self bf t1 now1) =
   map_option deliveredBits
     (prepareNextBlock H2 txHash decodeBig encode cop bv pk chain self bf t2 now2)
   \<and> (\<exists>st' r. prepareNextBlock H2 txHash decodeBig encode cop bv pk (chain\<lparr>isTestnet := False\<rparr>)
         self bf t1 now1 = Some st' \<and> deliveredBits st' = [r])
   \<and> map_option deliveredBits
       (prepareNextBlock H2 txHash decodeBig encode cop bv pk chainTest (testBlock 1) bf t1 now1) =
     Some [Inr 0x1c00ffff]"
  using prepareNextBlock_bits [of H2 txHash decodeBig encode cop bv pk chain self bf t1 now1 t2 now2]
    prepareNextBlock_delivers [of H2 txHash decodeBig encode cop bv pk chain self bf t1 now1]
    prepareNextBlock_chainTest [of H2 txHash decodeBig encode cop bv pk bf t1 now1]
  by blast

end
